theory Spec2Isabelle
  imports Complex_Main
begin

section \<open>Values exchanged with the store\<close>

text \<open>
  A purchase date; the code only passes it through to the store.
\<close>

type_synonym date = "nat \<times> nat \<times> nat"

text \<open>
  What a Python variable holding an identifier contains in \<^verbatim>\<open>Backend.py\<close>: either the
  integer taken out of a result row with \<^verbatim>\<open>cur.fetchone()[0]\<close>, or the whole one-column
  row \<^verbatim>\<open>cur.fetchone()\<close>, a 1-tuple \<^verbatim>\<open>(n,)\<close>.
\<close>

datatype pyid = Scalar int | Row1 int

text \<open>
  A statement parameter as the server reads it. psycopg2 renders an integer \<^verbatim>\<open>n\<close> as
  \<^verbatim>\<open>n\<close> and the 1-tuple \<^verbatim>\<open>(n,)\<close> as \<^verbatim>\<open>(n)\<close>, which SQL reads as the integer again.
\<close>

fun sql_int :: "pyid \<Rightarrow> int" where
  "sql_int (Scalar n) = n"
| "sql_int (Row1 n) = n"

text \<open>
  The subclasses of \<^verbatim>\<open>psycopg2.Error\<close> that a statement of this program can raise, and
  the text \<^verbatim>\<open>{e}\<close> that the f-strings of the code put into the returned message (the
  server's wording is replaced by the name of the condition).
\<close>

datatype psycopg2_Error =
  UniqueViolation | ForeignKeyViolation | CheckViolation | SyntaxError | ProgrammingError

fun str_error :: "psycopg2_Error \<Rightarrow> string" where
  "str_error UniqueViolation = ''duplicate key value violates unique constraint''"
| "str_error ForeignKeyViolation = ''insert or update violates foreign key constraint''"
| "str_error CheckViolation = ''new row violates a constraint of the relation''"
| "str_error SyntaxError = ''syntax error at or near \"WHERE\"''"
| "str_error ProgrammingError = ''parameters do not match the statement''"

subsection \<open>Printing integers\<close>

definition digit_char :: "int \<Rightarrow> char" where
  "digit_char d = ''0123456789'' ! nat d"

function str_digits :: "int \<Rightarrow> string" where
  "str_digits n =
     (if n < 10 then [digit_char n] else str_digits (n div 10) @ [digit_char (n mod 10)])"
  by pat_completeness auto
termination
  by (relation "measure nat") auto

declare str_digits.simps [simp del]

text \<open>\<^verbatim>\<open>str(i)\<close>, which is what \<^verbatim>\<open>f"{asset_id}"\<close> prints for an integer.\<close>

definition str_int :: "int \<Rightarrow> string" where
  "str_int i = (if i < 0 then CHR ''-'' # str_digits (- i) else str_digits i)"

text \<open>\<^verbatim>\<open>sep.join(xs)\<close>.\<close>

fun join :: "string \<Rightarrow> string list \<Rightarrow> string" where
  "join sep [] = []"
| "join sep [x] = x"
| "join sep (x # y # ys) = x @ sep @ join sep (y # ys)"

section \<open>Numbers\<close>

text \<open>
  Two number formats of the code round their results to a fixed count of significant
  digits: Python's \<^verbatim>\<open>float\<close> (IEEE 754 binary64: 53 binary digits, ties to even) and
  \<^verbatim>\<open>decimal.Decimal\<close> under the default context, which the code never changes (28 decimal
  digits, \<^verbatim>\<open>ROUND_HALF_EVEN\<close>). A finite number of either format is modelled by its value,
  a rational; every arithmetic operation is the exact operation followed by the rounding
  of its format. Infinities, NaN, the sign of zero and the exponent limits (overflow,
  subnormal numbers) are outside the model.
\<close>

definition round_half_even :: "rat \<Rightarrow> int" where
  "round_half_even q =
     (let f = \<lfloor>q\<rfloor>; d = q - of_int f
      in if d < 1 / 2 then f else if 1 / 2 < d then f + 1 else if even f then f else f + 1)"

text \<open>The count of digits of \<open>n\<close> in base \<open>b\<close>, for \<open>n > 0\<close>.\<close>

function digits :: "int \<Rightarrow> int \<Rightarrow> nat" where
  "digits b n = (if 0 < n \<and> 1 < b then Suc (digits b (n div b)) else 0)"
  by pat_completeness auto
termination
  by (relation "measure (\<lambda>(b, n). nat n)") (auto simp: int_div_less_self)

declare digits.simps [simp del]

text \<open>The integer \<open>e\<close> with \<open>b ^ e \<le> x < b ^ (e + 1)\<close>, for \<open>x > 0\<close>.\<close>

definition ilog :: "int \<Rightarrow> rat \<Rightarrow> int" where
  "ilog b x =
     (let (p, q) = quotient_of x;
          d = int (digits b p) - int (digits b q)
      in if power_int (of_int b) d \<le> x then d else d - 1)"

text \<open>Rounding to \<open>p\<close> significant digits in base \<open>b\<close>, ties to even.\<close>

definition round_sig :: "int \<Rightarrow> int \<Rightarrow> rat \<Rightarrow> rat" where
  "round_sig b p x =
     (if x = 0 then 0
      else let u = power_int (of_int b) (ilog b \<bar>x\<bar> - p + 1)
           in sgn x * of_int (round_half_even (\<bar>x\<bar> / u)) * u)"

subsection \<open>decimal.Decimal\<close>

definition prec :: int where
  "prec = 28"

definition dec_round :: "rat \<Rightarrow> rat" where
  "dec_round x = round_sig 10 prec x"

definition dec_mul :: "rat \<Rightarrow> rat \<Rightarrow> rat" where
  "dec_mul x y = dec_round (x * y)"

definition dec_add :: "rat \<Rightarrow> rat \<Rightarrow> rat" where
  "dec_add x y = dec_round (x + y)"

definition dec_sub :: "rat \<Rightarrow> rat \<Rightarrow> rat" where
  "dec_sub x y = dec_round (x - y)"

subsection \<open>float\<close>

definition fl_round :: "rat \<Rightarrow> rat" where
  "fl_round x = round_sig 2 53 x"

definition fl_add :: "rat \<Rightarrow> rat \<Rightarrow> rat" where
  "fl_add x y = fl_round (x + y)"

definition fl_sub :: "rat \<Rightarrow> rat \<Rightarrow> rat" where
  "fl_sub x y = fl_round (x - y)"

definition fl_mul :: "rat \<Rightarrow> rat \<Rightarrow> rat" where
  "fl_mul x y = fl_round (x * y)"

text \<open>The literals \<^verbatim>\<open>0.5\<close> and \<^verbatim>\<open>0.2\<close>: the doubles nearest to 1/2 and 1/5.\<close>

definition lit_0_5 :: rat where
  "lit_0_5 = fl_round (1 / 2)"

definition lit_0_2 :: rat where
  "lit_0_2 = fl_round (1 / 5)"

section \<open>The store\<close>

text \<open>
  Modelled from the spec: the table declarations are not part of the source files. The
  four tables and their columns are those named by the statements of \<^verbatim>\<open>Backend.py\<close>; the
  spec gives the constraints: email is unique among Users, an Account references an
  existing User, an Asset an existing Account, a Transaction an existing Asset, and
  deleting an Asset deletes its Transactions. The numeric columns hold decimal values
  exactly. Identifiers come from one generator per table, and, as in PostgreSQL, a value
  handed out by a generator is never handed out again, whether or not the transaction
  that asked for it commits. The fields of a row are the columns, with the table's
  initials in front.
\<close>

record user_row =
  u_user_id :: int
  u_name :: string
  u_email :: string

record account_row =
  ac_account_id :: int
  ac_user_id :: int
  ac_account_type :: string
  ac_provider_name :: string

record asset_row =
  as_asset_id :: int
  as_account_id :: int
  as_ticker_symbol :: string
  as_asset_class :: string
  as_purchase_date :: date
  as_shares :: rat
  as_cost_basis :: rat

record transaction_row =
  tx_transaction_id :: int
  tx_asset_id :: int
  tx_transaction_type :: string
  tx_transaction_date :: date
  tx_shares :: rat
  tx_amount :: rat

record tables =
  Users :: "user_row list"
  Accounts :: "account_row list"
  Assets :: "asset_row list"
  Transactions :: "transaction_row list"

record generators =
  next_user_id :: int
  next_account_id :: int
  next_asset_id :: int
  next_transaction_id :: int

record database =
  tabs :: tables
  gens :: generators

text \<open>
  Whatever else the table declarations demand of a single row (column ranges, NOT NULL,
  CHECK clauses) is a parameter of the model: one predicate per table, true for the rows
  the table accepts.
\<close>

record schema =
  users_check :: "user_row \<Rightarrow> bool"
  accounts_check :: "account_row \<Rightarrow> bool"
  assets_check :: "asset_row \<Rightarrow> bool"
  transactions_check :: "transaction_row \<Rightarrow> bool"

subsection \<open>Connections and units of work\<close>

text \<open>
  A connection sees the committed tables and its own uncommitted changes. \<^verbatim>\<open>commit\<close>
  publishes the changes, \<^verbatim>\<open>rollback\<close> drops them, and \<^verbatim>\<open>close\<close> leaves behind what
  was committed. Every function of \<^verbatim>\<open>Backend.py\<close> opens its own connection and closes it in
  its \<^verbatim>\<open>finally\<close> block; the model starts where the connection has been established.
\<close>

record connection =
  committed :: tables
  pending :: tables
  sequences :: generators

definition get_db_connection :: "database \<Rightarrow> connection" where
  "get_db_connection db = \<lparr>committed = tabs db, pending = tabs db, sequences = gens db\<rparr>"

definition commit :: "connection \<Rightarrow> connection" where
  "commit conn = conn\<lparr>committed := pending conn\<rparr>"

definition rollback :: "connection \<Rightarrow> connection" where
  "rollback conn = conn\<lparr>pending := committed conn\<rparr>"

definition close :: "connection \<Rightarrow> database" where
  "close conn = \<lparr>tabs = committed conn, gens = sequences conn\<rparr>"

subsection \<open>The statements of the program\<close>

text \<open>
  Each statement takes the connection and returns what \<^verbatim>\<open>cur.execute\<close> followed by
  \<^verbatim>\<open>cur.fetchone\<close> or \<^verbatim>\<open>cur.fetchall\<close> gives, or the error raised, together with the
  connection afterwards. A statement that raises leaves the tables as they were.
\<close>

text \<open>\<^verbatim>\<open>SELECT user_id FROM Users WHERE email = %s\<close>, first row.\<close>

definition select_user_id ::
  "string \<Rightarrow> connection \<Rightarrow> (psycopg2_Error + int option) \<times> connection" where
  "select_user_id user_email conn =
     (Inr (case filter (\<lambda>u. u_email u = user_email) (Users (pending conn)) of
             [] \<Rightarrow> None
           | u # _ \<Rightarrow> Some (u_user_id u)), conn)"

text \<open>\<^verbatim>\<open>INSERT INTO Users (name, email) VALUES (%s, %s) RETURNING user_id\<close>.\<close>

definition insert_user ::
  "schema \<Rightarrow> string \<Rightarrow> string \<Rightarrow> connection \<Rightarrow> (psycopg2_Error + int) \<times> connection" where
  "insert_user sch user_name user_email conn =
     (let n = next_user_id (sequences conn);
          conn1 = conn\<lparr>sequences := (sequences conn)\<lparr>next_user_id := n + 1\<rparr>\<rparr>;
          row = \<lparr>u_user_id = n, u_name = user_name, u_email = user_email\<rparr>;
          t = pending conn
      in if \<not> users_check sch row then (Inl CheckViolation, conn1)
         else if n \<in> set (map u_user_id (Users t)) then (Inl UniqueViolation, conn1)
         else if user_email \<in> set (map u_email (Users t)) then (Inl UniqueViolation, conn1)
         else (Inr n, conn1\<lparr>pending := t\<lparr>Users := Users t @ [row]\<rparr>\<rparr>))"

text \<open>\<^verbatim>\<open>SELECT account_id FROM Accounts WHERE user_id = %s AND provider_name = %s\<close>, first row.\<close>

definition select_account_id ::
  "pyid \<Rightarrow> string \<Rightarrow> connection \<Rightarrow> (psycopg2_Error + int option) \<times> connection" where
  "select_account_id user_id provider conn =
     (Inr (case filter (\<lambda>a. ac_user_id a = sql_int user_id \<and> ac_provider_name a = provider)
                  (Accounts (pending conn)) of
             [] \<Rightarrow> None
           | a # _ \<Rightarrow> Some (ac_account_id a)), conn)"

text \<open>
  \<^verbatim>\<open>INSERT INTO Accounts (user_id, account_type, provider_name) VALUES (%s, %s, %s)
  RETURNING account_id\<close>.
\<close>

definition insert_account ::
  "schema \<Rightarrow> pyid \<Rightarrow> string \<Rightarrow> string \<Rightarrow> connection \<Rightarrow> (psycopg2_Error + int) \<times> connection" where
  "insert_account sch user_id account_type provider conn =
     (let n = next_account_id (sequences conn);
          conn1 = conn\<lparr>sequences := (sequences conn)\<lparr>next_account_id := n + 1\<rparr>\<rparr>;
          row = \<lparr>ac_account_id = n, ac_user_id = sql_int user_id,
                 ac_account_type = account_type, ac_provider_name = provider\<rparr>;
          t = pending conn
      in if \<not> accounts_check sch row then (Inl CheckViolation, conn1)
         else if n \<in> set (map ac_account_id (Accounts t)) then (Inl UniqueViolation, conn1)
         else if sql_int user_id \<notin> set (map u_user_id (Users t))
           then (Inl ForeignKeyViolation, conn1)
         else (Inr n, conn1\<lparr>pending := t\<lparr>Accounts := Accounts t @ [row]\<rparr>\<rparr>))"

text \<open>
  \<^verbatim>\<open>INSERT INTO Assets (account_id, ticker_symbol, asset_class, purchase_date, shares,
  cost_basis) VALUES (%s, %s, %s, %s, %s, %s) RETURNING asset_id\<close>.
\<close>

definition insert_asset ::
  "schema \<Rightarrow> pyid \<Rightarrow> string \<Rightarrow> string \<Rightarrow> date \<Rightarrow> rat \<Rightarrow> rat \<Rightarrow> connection
     \<Rightarrow> (psycopg2_Error + int) \<times> connection" where
  "insert_asset sch account_id ticker asset_class purchase_date shares cost_basis conn =
     (let n = next_asset_id (sequences conn);
          conn1 = conn\<lparr>sequences := (sequences conn)\<lparr>next_asset_id := n + 1\<rparr>\<rparr>;
          row = \<lparr>as_asset_id = n, as_account_id = sql_int account_id,
                 as_ticker_symbol = ticker, as_asset_class = asset_class,
                 as_purchase_date = purchase_date, as_shares = shares,
                 as_cost_basis = cost_basis\<rparr>;
          t = pending conn
      in if \<not> assets_check sch row then (Inl CheckViolation, conn1)
         else if n \<in> set (map as_asset_id (Assets t)) then (Inl UniqueViolation, conn1)
         else if sql_int account_id \<notin> set (map ac_account_id (Accounts t))
           then (Inl ForeignKeyViolation, conn1)
         else (Inr n, conn1\<lparr>pending := t\<lparr>Assets := Assets t @ [row]\<rparr>\<rparr>))"

text \<open>
  \<^verbatim>\<open>INSERT INTO Transactions (asset_id, transaction_type, transaction_date, shares, amount)
  VALUES (%s, 'BUY', %s, %s, %s)\<close>.
\<close>

definition insert_transaction ::
  "schema \<Rightarrow> int \<Rightarrow> date \<Rightarrow> rat \<Rightarrow> rat \<Rightarrow> connection \<Rightarrow> (psycopg2_Error + unit) \<times> connection" where
  "insert_transaction sch asset_id purchase_date shares total_amount conn =
     (let n = next_transaction_id (sequences conn);
          conn1 = conn\<lparr>sequences := (sequences conn)\<lparr>next_transaction_id := n + 1\<rparr>\<rparr>;
          row = \<lparr>tx_transaction_id = n, tx_asset_id = asset_id, tx_transaction_type = ''BUY'',
                 tx_transaction_date = purchase_date, tx_shares = shares,
                 tx_amount = total_amount\<rparr>;
          t = pending conn
      in if \<not> transactions_check sch row then (Inl CheckViolation, conn1)
         else if n \<in> set (map tx_transaction_id (Transactions t))
           then (Inl UniqueViolation, conn1)
         else if asset_id \<notin> set (map as_asset_id (Assets t))
           then (Inl ForeignKeyViolation, conn1)
         else (Inr (), conn1\<lparr>pending := t\<lparr>Transactions := Transactions t @ [row]\<rparr>\<rparr>))"

text \<open>
  \<^verbatim>\<open>SELECT ... FROM Assets WHERE account_id = %s\<close>, all rows. \<^verbatim>\<open>read_portfolio\<close> and
  \<^verbatim>\<open>get_insights\<close> select different columns of the same rows; the model hands over the
  rows.
\<close>

definition select_assets ::
  "pyid \<Rightarrow> connection \<Rightarrow> (psycopg2_Error + asset_row list) \<times> connection" where
  "select_assets account_id conn =
     (Inr (filter (\<lambda>a. as_account_id a = sql_int account_id) (Assets (pending conn))), conn)"

text \<open>
  \<^verbatim>\<open>DELETE FROM Assets WHERE asset_id = %s\<close>; the Transactions of a deleted Asset go with
  it (ON DELETE CASCADE). The result is the count of Asset rows deleted.
\<close>

definition delete_from_assets ::
  "int \<Rightarrow> connection \<Rightarrow> (psycopg2_Error + nat) \<times> connection" where
  "delete_from_assets asset_id conn =
     (let t = pending conn;
          hit = filter (\<lambda>a. as_asset_id a = asset_id) (Assets t)
      in (Inr (length hit),
          conn\<lparr>pending :=
                 t\<lparr>Assets := filter (\<lambda>a. as_asset_id a \<noteq> asset_id) (Assets t),
                   Transactions :=
                     filter (\<lambda>x. tx_asset_id x \<notin> set (map as_asset_id hit)) (Transactions t)\<rparr>\<rparr>))"

text \<open>
  The statement that \<^verbatim>\<open>update_asset\<close> assembles as text. The server accepts the three
  texts with one or two assignments; any other text of this family is a syntax error.
  The parameters are bound in order: one decimal for each assignment, then the
  identifier of the \<^verbatim>\<open>WHERE\<close> clause. Every changed row must still be accepted by the
  table.
\<close>

datatype param = PDecimal rat | PInt int

definition parse_update :: "string \<Rightarrow> string list option" where
  "parse_update query =
     (if query = ''UPDATE Assets SET shares = %s WHERE asset_id = %s''
        then Some [''shares'']
      else if query = ''UPDATE Assets SET cost_basis = %s WHERE asset_id = %s''
        then Some [''cost_basis'']
      else if query = ''UPDATE Assets SET shares = %s, cost_basis = %s WHERE asset_id = %s''
        then Some [''shares'', ''cost_basis'']
      else None)"

fun bind_params :: "string list \<Rightarrow> param list \<Rightarrow> ((string \<times> rat) list \<times> int) option" where
  "bind_params [] [PInt i] = Some ([], i)"
| "bind_params (c # cs) (PDecimal v # ps) =
     (case bind_params cs ps of None \<Rightarrow> None | Some (sets, i) \<Rightarrow> Some ((c, v) # sets, i))"
| "bind_params _ _ = None"

fun assign :: "(string \<times> rat) list \<Rightarrow> asset_row \<Rightarrow> asset_row" where
  "assign [] a = a"
| "assign ((c, v) # sets) a =
     assign sets (if c = ''shares'' then a\<lparr>as_shares := v\<rparr>
                  else if c = ''cost_basis'' then a\<lparr>as_cost_basis := v\<rparr> else a)"

definition execute_update ::
  "schema \<Rightarrow> string \<Rightarrow> param list \<Rightarrow> connection \<Rightarrow> (psycopg2_Error + nat) \<times> connection" where
  "execute_update sch query params conn =
     (case parse_update query of
        None \<Rightarrow> (Inl SyntaxError, conn)
      | Some cols \<Rightarrow>
          (case bind_params cols params of
             None \<Rightarrow> (Inl ProgrammingError, conn)
           | Some (sets, i) \<Rightarrow>
               (let t = pending conn;
                    hit = filter (\<lambda>a. as_asset_id a = i) (Assets t)
                in if \<exists>a \<in> set hit. \<not> assets_check sch (assign sets a)
                   then (Inl CheckViolation, conn)
                   else (Inr (length hit),
                         conn\<lparr>pending :=
                                t\<lparr>Assets := map (\<lambda>a. if as_asset_id a = i then assign sets a else a)
                                               (Assets t)\<rparr>\<rparr>))))"

section \<open>Backend.py\<close>

text \<open>
  \<^verbatim>\<open>Decimal(x)\<close> of a finite number is exact: an integer, a float and a decimal all keep
  their value.
\<close>

definition Decimal :: "rat \<Rightarrow> rat" where
  "Decimal x = x"

text \<open>
  \<^verbatim>\<open>create_user_and_account\<close>. The first \<^verbatim>\<open>fetchone()\<close> of each lookup keeps the whole
  row when there is one; after an insert the code takes column 0 of the returned row.
  On \<^verbatim>\<open>psycopg2.Error\<close> the pair \<^verbatim>\<open>(None, None)\<close> is returned after a rollback.
\<close>

definition create_user_and_account ::
  "schema \<Rightarrow> string \<Rightarrow> string \<Rightarrow> string \<Rightarrow> string \<Rightarrow> database
     \<Rightarrow> (pyid option \<times> pyid option) \<times> database" where
  "create_user_and_account sch user_name user_email account_type provider db =
     (let conn = get_db_connection db
      in case select_user_id user_email conn of
           (Inl e, conn) \<Rightarrow> ((None, None), close (rollback conn))
         | (Inr row, conn) \<Rightarrow>
             (case (case row of
                      Some n \<Rightarrow> (Inr (Row1 n), conn)
                    | None \<Rightarrow>
                        (case insert_user sch user_name user_email conn of
                           (Inl e, conn) \<Rightarrow> (Inl e, conn)
                         | (Inr n, conn) \<Rightarrow> (Inr (Scalar n), commit conn))) of
                (Inl e, conn) \<Rightarrow> ((None, None), close (rollback conn))
              | (Inr user_id, conn) \<Rightarrow>
                  (case select_account_id user_id provider conn of
                     (Inl e, conn) \<Rightarrow> ((None, None), close (rollback conn))
                   | (Inr row, conn) \<Rightarrow>
                       (case (case row of
                                Some n \<Rightarrow> (Inr (Row1 n), conn)
                              | None \<Rightarrow>
                                  (case insert_account sch user_id account_type provider conn of
                                     (Inl e, conn) \<Rightarrow> (Inl e, conn)
                                   | (Inr n, conn) \<Rightarrow> (Inr (Scalar n), commit conn))) of
                          (Inl e, conn) \<Rightarrow> ((None, None), close (rollback conn))
                        | (Inr account_id, conn) \<Rightarrow>
                            ((Some user_id, Some account_id), close conn)))))"

text \<open>The call of the page, \<^verbatim>\<open>create_user_and_account()\<close>, with the default arguments.\<close>

definition bootstrap :: "schema \<Rightarrow> database \<Rightarrow> (pyid option \<times> pyid option) \<times> database" where
  "bootstrap sch db =
     create_user_and_account sch ''John Doe'' ''john.doe@example.com'' ''Brokerage''
       ''Fictional Broker'' db"

text \<open>\<^verbatim>\<open>create_asset_and_transaction\<close>: two inserts, one commit after both.\<close>

definition create_asset_and_transaction ::
  "schema \<Rightarrow> pyid \<Rightarrow> pyid \<Rightarrow> string \<Rightarrow> string \<Rightarrow> date \<Rightarrow> rat \<Rightarrow> rat \<Rightarrow> database
     \<Rightarrow> string \<times> database" where
  "create_asset_and_transaction sch user_id account_id ticker asset_class purchase_date
       shares cost_basis db =
     (let conn = get_db_connection db
      in case insert_asset sch account_id ticker asset_class purchase_date
                (Decimal shares) (Decimal cost_basis) conn of
           (Inl e, conn) \<Rightarrow> (''Error creating asset: '' @ str_error e, close (rollback conn))
         | (Inr asset_id, conn) \<Rightarrow>
             (let total_amount = dec_mul (Decimal shares) (Decimal cost_basis)
              in case insert_transaction sch asset_id purchase_date (Decimal shares)
                        total_amount conn of
                   (Inl e, conn) \<Rightarrow>
                     (''Error creating asset: '' @ str_error e, close (rollback conn))
                 | (Inr _, conn) \<Rightarrow>
                     (''Asset and transaction created successfully.'', close (commit conn))))"

text \<open>
  \<^verbatim>\<open>f"{x:.2f}"\<close> for a decimal \<open>x\<close>: two places, ties to even, the sign kept when the
  digits round to zero.
\<close>

definition fmt_2f :: "rat \<Rightarrow> string" where
  "fmt_2f x =
     (let n = round_half_even (\<bar>x\<bar> * 100)
      in (if x < 0 then ''-'' else []) @ str_digits (n div 100) @ ''.''
           @ [digit_char (n mod 100 div 10), digit_char (n mod 10)])"

text \<open>
  One entry of the list that \<^verbatim>\<open>read_portfolio\<close> returns (a dict with these nine keys).
\<close>

record holding =
  h_asset_id :: int
  Ticker :: string
  Asset_Class :: string
  Shares :: rat
  Cost_Basis :: string
  Purchase_Date :: date
  Current_Price :: string
  Current_Value :: string
  Gain_Loss :: string

text \<open>
  \<^verbatim>\<open>random.random()\<close> is an input of the model: \<open>random i\<close> is the double returned by the
  \<open>i\<close>-th call made while the function runs. The generator returns the doubles
  \<open>k / 2 ^ 53\<close> with \<open>0 \<le> k < 2 ^ 53\<close>.
\<close>

definition is_random :: "rat \<Rightarrow> bool" where
  "is_random r \<longleftrightarrow> 0 \<le> r \<and> r < 1 \<and> r * 2 ^ 53 = of_int \<lfloor>r * 2 ^ 53\<rfloor>"

fun portfolio_loop :: "(nat \<Rightarrow> rat) \<Rightarrow> nat \<Rightarrow> asset_row list \<Rightarrow> holding list \<Rightarrow> holding list" where
  "portfolio_loop random i [] portfolio = portfolio"
| "portfolio_loop random i (asset # assets) portfolio =
     (let shares = as_shares asset;
          cost_basis = as_cost_basis asset;
          current_price =
            dec_mul cost_basis (Decimal (fl_add 1 (fl_mul (fl_sub (random i) lit_0_5) lit_0_2)));
          current_value = dec_mul shares current_price;
          gain_loss = dec_sub current_value (dec_mul shares cost_basis)
      in portfolio_loop random (i + 1) assets
           (portfolio @
            [\<lparr>h_asset_id = as_asset_id asset, Ticker = as_ticker_symbol asset,
              Asset_Class = as_asset_class asset, Shares = shares,
              Cost_Basis = fmt_2f cost_basis, Purchase_Date = as_purchase_date asset,
              Current_Price = fmt_2f current_price, Current_Value = fmt_2f current_value,
              Gain_Loss = fmt_2f gain_loss\<rparr>]))"

definition read_portfolio :: "(nat \<Rightarrow> rat) \<Rightarrow> pyid \<Rightarrow> database \<Rightarrow> string + holding list" where
  "read_portfolio random account_id db =
     (let conn = get_db_connection db
      in case select_assets account_id conn of
           (Inl e, conn) \<Rightarrow> Inl (''Error reading portfolio: '' @ str_error e)
         | (Inr assets, conn) \<Rightarrow> Inr (portfolio_loop random 0 assets []))"

text \<open>
  \<^verbatim>\<open>update_asset\<close>: the statement text is assembled from the fields supplied and then
  executed, whatever it is.
\<close>

definition update_asset ::
  "schema \<Rightarrow> int \<Rightarrow> rat option \<Rightarrow> rat option \<Rightarrow> database \<Rightarrow> string \<times> database" where
  "update_asset sch asset_id new_shares new_cost_basis db =
     (let conn = get_db_connection db;
          updates = (case new_shares of None \<Rightarrow> [] | Some v \<Rightarrow> [''shares = %s''])
                    @ (case new_cost_basis of None \<Rightarrow> [] | Some v \<Rightarrow> [''cost_basis = %s'']);
          params = (case new_shares of None \<Rightarrow> [] | Some v \<Rightarrow> [PDecimal (Decimal v)])
                   @ (case new_cost_basis of None \<Rightarrow> [] | Some v \<Rightarrow> [PDecimal (Decimal v)])
                   @ [PInt asset_id];
          query = ''UPDATE Assets SET '' @ join '', '' updates @ '' WHERE asset_id = %s''
      in case execute_update sch query params conn of
           (Inl e, conn) \<Rightarrow> (''Error updating asset: '' @ str_error e, close (rollback conn))
         | (Inr _, conn) \<Rightarrow>
             (''Asset '' @ str_int asset_id @ '' updated successfully.'', close (commit conn)))"

text \<open>\<^verbatim>\<open>delete_asset\<close>.\<close>

definition delete_asset :: "int \<Rightarrow> database \<Rightarrow> string \<times> database" where
  "delete_asset asset_id db =
     (let conn = get_db_connection db
      in case delete_from_assets asset_id conn of
           (Inl e, conn) \<Rightarrow> (''Error deleting asset: '' @ str_error e, close (rollback conn))
         | (Inr _, conn) \<Rightarrow>
             (''Asset '' @ str_int asset_id @ '' deleted successfully.'', close (commit conn)))"

text \<open>
  \<^verbatim>\<open>get_insights\<close>. The dict \<^verbatim>\<open>asset_allocation\<close> keeps its keys in the order of their
  first insertion; it is a list of pairs with no key twice.
\<close>

type_synonym allocation = "(string \<times> rat) list"

fun dict_set :: "allocation \<Rightarrow> string \<Rightarrow> rat \<Rightarrow> allocation" where
  "dict_set [] k v = [(k, v)]"
| "dict_set ((k', w) # d) k v = (if k' = k then (k, v) # d else (k', w) # dict_set d k v)"

record insights =
  total_value :: rat
  total_gain_loss :: rat
  asset_allocation :: allocation

fun insights_loop ::
  "(nat \<Rightarrow> rat) \<Rightarrow> nat \<Rightarrow> asset_row list \<Rightarrow> rat \<times> rat \<times> allocation \<Rightarrow> rat \<times> rat \<times> allocation" where
  "insights_loop random i [] acc = acc"
| "insights_loop random i (asset # assets) (tv, tcb, alloc) =
     (let asset_class = as_asset_class asset;
          shares = as_shares asset;
          cost_basis = as_cost_basis asset;
          current_price =
            dec_mul cost_basis (Decimal (fl_add 1 (fl_mul (fl_sub (random i) lit_0_5) lit_0_2)));
          current_value = dec_mul shares current_price
      in insights_loop random (i + 1) assets
           (dec_add tv current_value,
            dec_add tcb (dec_mul shares cost_basis),
            (case map_of alloc asset_class of
               None \<Rightarrow> dict_set alloc asset_class (dec_add (Decimal 0) current_value)
             | Some v \<Rightarrow> dict_set alloc asset_class (dec_add v current_value))))"

definition get_insights :: "(nat \<Rightarrow> rat) \<Rightarrow> pyid \<Rightarrow> database \<Rightarrow> string + insights" where
  "get_insights random account_id db =
     (let conn = get_db_connection db
      in case select_assets account_id conn of
           (Inl e, conn) \<Rightarrow> Inl (''Error getting insights: '' @ str_error e)
         | (Inr assets, conn) \<Rightarrow>
             (case insights_loop random 0 assets (Decimal 0, Decimal 0, []) of
                (tv, tcb, alloc) \<Rightarrow>
                  Inr \<lparr>total_value = tv, total_gain_loss = dec_sub tv tcb,
                       asset_allocation = alloc\<rparr>))"

section \<open>Frontend.py\<close>

text \<open>
  Line 38, the number shown under the metric ``Total Gain/Loss'':
  \<^verbatim>\<open>total_gain_loss/total_value * 100 if total_value > 0 else 0\<close>. Dividing a decimal by zero
  raises, so the quotient is a result or a signal.
\<close>

datatype decimal_signal = DivisionByZero | InvalidOperation

definition dec_div :: "rat \<Rightarrow> rat \<Rightarrow> decimal_signal + rat" where
  "dec_div x y =
     (if y = 0 then (if x = 0 then Inl InvalidOperation else Inl DivisionByZero)
      else Inr (dec_round (x / y)))"

definition delta :: "insights \<Rightarrow> decimal_signal + rat" where
  "delta ins =
     (if total_value ins > 0
      then (case dec_div (total_gain_loss ins) (total_value ins) of
              Inl s \<Rightarrow> Inl s
            | Inr q \<Rightarrow> Inr (dec_mul q 100))
      else Inr 0)"

section \<open>Example stores\<close>

text \<open>A schema whose tables accept every row.\<close>

definition accept_all :: schema where
  "accept_all =
     \<lparr>users_check = (\<lambda>_. True), accounts_check = (\<lambda>_. True),
      assets_check = (\<lambda>_. True), transactions_check = (\<lambda>_. True)\<rparr>"

text \<open>
  A schema whose column \<^verbatim>\<open>Transactions.amount\<close> holds fewer digits than a product of two
  values that the columns of \<^verbatim>\<open>Assets\<close> accept.
\<close>

definition narrow_amount :: schema where
  "narrow_amount = accept_all\<lparr>transactions_check := (\<lambda>x. \<bar>tx_amount x\<bar> < 10 ^ 10)\<rparr>"

text \<open>The store before the first run, and after the page has run once.\<close>

definition fresh_db :: database where
  "fresh_db =
     \<lparr>tabs = \<lparr>Users = [], Accounts = [], Assets = [], Transactions = []\<rparr>,
      gens = \<lparr>next_user_id = 1, next_account_id = 1, next_asset_id = 1,
              next_transaction_id = 1\<rparr>\<rparr>"

definition bootstrapped_db :: database where
  "bootstrapped_db =
     \<lparr>tabs = \<lparr>Users = [\<lparr>u_user_id = 1, u_name = ''John Doe'',
                         u_email = ''john.doe@example.com''\<rparr>],
              Accounts = [\<lparr>ac_account_id = 1, ac_user_id = 1, ac_account_type = ''Brokerage'',
                            ac_provider_name = ''Fictional Broker''\<rparr>],
              Assets = [], Transactions = []\<rparr>,
      gens = \<lparr>next_user_id = 2, next_account_id = 2, next_asset_id = 1,
              next_transaction_id = 1\<rparr>\<rparr>"

text \<open>The rows of one purchase: ten shares of AAPL at 150.00.\<close>

definition aapl :: asset_row where
  "aapl =
     \<lparr>as_asset_id = 1, as_account_id = 1, as_ticker_symbol = ''AAPL'',
      as_asset_class = ''Equity'', as_purchase_date = (2024, 1, 1), as_shares = 10,
      as_cost_basis = 150\<rparr>"

definition aapl_buy :: transaction_row where
  "aapl_buy =
     \<lparr>tx_transaction_id = 1, tx_asset_id = 1, tx_transaction_type = ''BUY'',
      tx_transaction_date = (2024, 1, 1), tx_shares = 10, tx_amount = 1500\<rparr>"

definition one_asset_db :: database where
  "one_asset_db =
     \<lparr>tabs = (tabs bootstrapped_db)\<lparr>Assets := [aapl], Transactions := [aapl_buy]\<rparr>,
      gens = \<lparr>next_user_id = 2, next_account_id = 2, next_asset_id = 2,
              next_transaction_id = 2\<rparr>\<rparr>"

text \<open>
  A store with three holdings in two classes, the second class between two purchases of
  the first, and a store with one share bought at 100.00.
\<close>

definition ltc :: asset_row where
  "ltc =
     \<lparr>as_asset_id = 2, as_account_id = 1, as_ticker_symbol = ''LTC'',
      as_asset_class = ''Crypto'', as_purchase_date = (2024, 1, 2), as_shares = 1,
      as_cost_basis = 9999 / 100\<rparr>"

definition ford :: asset_row where
  "ford =
     \<lparr>as_asset_id = 3, as_account_id = 1, as_ticker_symbol = ''F'',
      as_asset_class = ''Equity'', as_purchase_date = (2024, 1, 3), as_shares = 10,
      as_cost_basis = 1234 / 100\<rparr>"

definition mixed_assets :: "asset_row list" where
  "mixed_assets = [aapl, ltc, ford]"

definition mixed_db :: database where
  "mixed_db =
     \<lparr>tabs = (tabs bootstrapped_db)\<lparr>Assets := mixed_assets,
        Transactions :=
          [aapl_buy,
           \<lparr>tx_transaction_id = 2, tx_asset_id = 2, tx_transaction_type = ''BUY'',
             tx_transaction_date = (2024, 1, 2), tx_shares = 1, tx_amount = 9999 / 100\<rparr>,
           \<lparr>tx_transaction_id = 3, tx_asset_id = 3, tx_transaction_type = ''BUY'',
             tx_transaction_date = (2024, 1, 3), tx_shares = 10, tx_amount = 1234 / 10\<rparr>]\<rparr>,
      gens = \<lparr>next_user_id = 2, next_account_id = 2, next_asset_id = 4,
              next_transaction_id = 4\<rparr>\<rparr>"

text \<open>What \<^verbatim>\<open>get_insights\<close> returns for this store when every draw is 0.25.\<close>

definition mixed_result :: insights where
  "mixed_result =
     \<lparr>total_value = 1637220499999999923466109664 / 10 ^ 24,
      total_gain_loss = - (86169500000000076533890336 / 10 ^ 24),
      asset_allocation = [(''Equity'', 1542229999999999927906557672 / 10 ^ 24),
                          (''Crypto'', 9499049999999999555955199071 / 10 ^ 26)]\<rparr>"

definition one_share :: asset_row where
  "one_share =
     \<lparr>as_asset_id = 1, as_account_id = 1, as_ticker_symbol = ''IBM'',
      as_asset_class = ''Equity'', as_purchase_date = (2024, 1, 1), as_shares = 1,
      as_cost_basis = 100\<rparr>"

definition one_share_db :: database where
  "one_share_db =
     \<lparr>tabs = (tabs bootstrapped_db)\<lparr>Assets := [one_share],
        Transactions :=
          [\<lparr>tx_transaction_id = 1, tx_asset_id = 1, tx_transaction_type = ''BUY'',
             tx_transaction_date = (2024, 1, 1), tx_shares = 1, tx_amount = 100\<rparr>]\<rparr>,
      gens = \<lparr>next_user_id = 2, next_account_id = 2, next_asset_id = 2,
              next_transaction_id = 2\<rparr>\<rparr>"

text \<open>The double that the literal \<^verbatim>\<open>0.1\<close> denotes, and the largest double below 1.\<close>

definition float_0_1 :: rat where
  "float_0_1 = 3602879701896397 / 36028797018963968"

definition largest_random :: rat where
  "largest_random = (2 ^ 53 - 1) / 2 ^ 53"

section \<open>Price, value and holding of an asset\<close>

text \<open>
  The double \<^verbatim>\<open>1 + (r - 0.5) * 0.2\<close> for a draw \<open>r\<close>, the price and the value that both
  loops compute from it for an asset, and the values of a list of assets when the
  \<open>i\<close>-th draw is the first to be used.
\<close>

definition price_factor :: "rat \<Rightarrow> rat" where
  "price_factor r = fl_add 1 (fl_mul (fl_sub r lit_0_5) lit_0_2)"

definition current_price :: "rat \<Rightarrow> rat \<Rightarrow> rat" where
  "current_price cost_basis r = dec_mul cost_basis (Decimal (price_factor r))"

definition current_value :: "asset_row \<Rightarrow> rat \<Rightarrow> rat" where
  "current_value asset r = dec_mul (as_shares asset) (current_price (as_cost_basis asset) r)"

fun current_values :: "(nat \<Rightarrow> rat) \<Rightarrow> nat \<Rightarrow> asset_row list \<Rightarrow> rat list" where
  "current_values random i [] = []"
| "current_values random i (asset # assets) =
     current_value asset (random i) # current_values random (i + 1) assets"

text \<open>
  The entry of \<^verbatim>\<open>read_portfolio\<close> for an asset and a draw, written with exact
  arithmetic and the roundings made explicit, and the entries of a list of assets.
\<close>

definition holding_of :: "asset_row \<Rightarrow> rat \<Rightarrow> holding" where
  "holding_of asset r =
     \<lparr>h_asset_id = as_asset_id asset, Ticker = as_ticker_symbol asset,
      Asset_Class = as_asset_class asset, Shares = as_shares asset,
      Cost_Basis = fmt_2f (as_cost_basis asset), Purchase_Date = as_purchase_date asset,
      Current_Price = fmt_2f (dec_round (as_cost_basis asset * price_factor r)),
      Current_Value =
        fmt_2f (dec_round (as_shares asset * dec_round (as_cost_basis asset * price_factor r))),
      Gain_Loss =
        fmt_2f (dec_round
          (dec_round (as_shares asset * dec_round (as_cost_basis asset * price_factor r))
           - dec_round (as_shares asset * as_cost_basis asset)))\<rparr>"

fun holdings :: "(nat \<Rightarrow> rat) \<Rightarrow> nat \<Rightarrow> asset_row list \<Rightarrow> holding list" where
  "holdings random i [] = []"
| "holdings random i (asset # assets) =
     holding_of asset (random i) # holdings random (i + 1) assets"

text \<open>
  The largest relative error of one rounding to 28 digits, and the doubles nearest to
  0.9 and 1.1.
\<close>

definition unit_roundoff :: rat where
  "unit_roundoff = 1 / (2 * 10 ^ 27)"

definition float_0_9 :: rat where
  "float_0_9 = 8106479329266893 / 9007199254740992"

definition float_1_1 :: rat where
  "float_1_1 = 2476979795053773 / 2251799813685248"

text \<open>\<^verbatim>\<open>sum(d.values())\<close> for a dict of decimals: Python adds from the left, starting at 0.\<close>

definition py_sum :: "rat list \<Rightarrow> rat" where
  "py_sum xs = foldl dec_add 0 xs"

section \<open>Rounding to significant digits\<close>

text \<open>
  What the rounding of both formats guarantees: it is monotone, it leaves a number with
  few enough digits unchanged, and it moves a number by at most half a unit of its last
  digit. The rules \<open>round_sig_eval\<close> compute it at a given number.
\<close>

lemma digits_pos: "0 < n \<Longrightarrow> 1 < b \<Longrightarrow> 0 < digits b n"
  by (subst digits.simps) simp

lemma digits_bounds:
  assumes "0 < n" "1 < b"
  shows "b ^ (digits b n - 1) \<le> n \<and> n < b ^ digits b n"
  using assms
proof (induction b n rule: digits.induct)
  case (1 b n)
  have split: "n = b * (n div b) + n mod b" by simp
  have rem: "0 \<le> n mod b" "n mod b < b" using 1 by simp_all
  have nonneg: "0 \<le> n div b"
    using 1 by (simp add: pos_imp_zdiv_nonneg_iff)
  have d: "digits b n = Suc (digits b (n div b))"
    using 1 by (subst digits.simps) simp
  show ?case
  proof (cases "0 < n div b")
    case False
    with nonneg have small: "n div b = 0" by simp
    with split rem have "n < b" by simp
    moreover have "digits b n = 1"
      using d small by (simp add: digits.simps [of b 0])
    ultimately show ?thesis using 1 by simp
  next
    case True
    with 1 have ih: "b ^ (digits b (n div b) - 1) \<le> n div b" "n div b < b ^ digits b (n div b)"
      by simp_all
    have dp: "0 < digits b (n div b)" using True 1 by (simp add: digits_pos)
    have "b ^ digits b (n div b) = b * b ^ (digits b (n div b) - 1)"
      using dp by (cases "digits b (n div b)") simp_all
    also have "\<dots> \<le> b * (n div b)"
      using ih(1) 1 by (intro mult_left_mono) simp_all
    also have "\<dots> \<le> n"
      using split rem by linarith
    finally have lo: "b ^ digits b (n div b) \<le> n" .
    have "n < b * (n div b) + b"
      using split rem by linarith
    also have "\<dots> = b * (n div b + 1)" by (simp add: algebra_simps)
    also have "\<dots> \<le> b * b ^ digits b (n div b)"
      using ih(2) 1 by (intro mult_left_mono) simp_all
    finally have hi: "n < b ^ Suc (digits b (n div b))" by simp
    from lo hi d show ?thesis by simp
  qed
qed

lemma power_int_of_int_pos: "1 < b \<Longrightarrow> 0 < power_int (of_int b :: rat) e"
  by (simp add: zero_less_power_int)

lemma ilog_bounds:
  assumes "0 < x" "1 < b"
  shows "power_int (of_int b) (ilog b x) \<le> x \<and> x < power_int (of_int b) (ilog b x + 1)"
proof -
  obtain p q where pq: "quotient_of x = (p, q)" by (cases "quotient_of x")
  have q: "0 < q" using quotient_of_denom_pos [OF pq] .
  have x: "x = of_int p / of_int q" using quotient_of_div [OF pq] .
  have p: "0 < p" using assms(1) q x by (simp add: zero_less_divide_iff)
  define B :: rat where "B = of_int b"
  have B: "1 < B" "0 < B" "B \<noteq> 0" using assms(2) by (simp_all add: B_def)
  define dp dq where "dp = digits b p" and "dq = digits b q"
  define d where "d = int dp - int dq"
  from digits_bounds [OF p assms(2)] have "b ^ (dp - 1) \<le> p" "p < b ^ dp"
    by (simp_all add: dp_def)
  then have pb: "B ^ (dp - 1) \<le> of_int p" "of_int p < B ^ dp"
    unfolding B_def by (metis of_int_le_iff of_int_power, metis of_int_less_iff of_int_power)
  from digits_bounds [OF q assms(2)] have "b ^ (dq - 1) \<le> q" "q < b ^ dq"
    by (simp_all add: dq_def)
  then have qb: "B ^ (dq - 1) \<le> of_int q" "of_int q < B ^ dq"
    unfolding B_def by (metis of_int_le_iff of_int_power, metis of_int_less_iff of_int_power)
  have dpp: "0 < dp" "0 < dq" using p q assms(2) by (simp_all add: dp_def dq_def digits_pos)
  have qpos: "(0::rat) < of_int q" using q by simp
  have ppos: "(0::rat) < of_int p" using p by simp
  have up: "x < power_int B (d + 1)"
  proof -
    have "x * B ^ (dq - 1) \<le> x * of_int q"
      using qb(1) assms(1) by (intro mult_left_mono) simp_all
    also have "\<dots> = of_int p" using x qpos by simp
    also have "\<dots> < B ^ dp" by (rule pb(2))
    finally have "x * B ^ (dq - 1) < B ^ dp" .
    then have "x < B ^ dp / B ^ (dq - 1)"
      using B by (simp add: pos_less_divide_eq)
    also have "\<dots> = power_int B (int dp - int (dq - 1))"
      using B by (simp add: power_int_diff)
    also have "int dp - int (dq - 1) = d + 1"
      using dpp by (simp add: d_def of_nat_diff)
    finally show ?thesis .
  qed
  have lo: "power_int B (d - 1) < x"
  proof -
    have "B ^ (dp - 1) \<le> of_int p" by (rule pb(1))
    also have "\<dots> = x * of_int q" using x qpos by simp
    also have "\<dots> < x * B ^ dq"
      using qb(2) assms(1) by (intro mult_strict_left_mono) simp_all
    finally have "B ^ (dp - 1) / B ^ dq < x"
      using B by (simp add: pos_divide_less_eq)
    moreover have "B ^ (dp - 1) / B ^ dq = power_int B (int (dp - 1) - int dq)"
      using B by (simp add: power_int_diff)
    moreover have "int (dp - 1) - int dq = d - 1"
      using dpp by (simp add: d_def of_nat_diff)
    ultimately show ?thesis by simp
  qed
  have il: "ilog b x = (if power_int B d \<le> x then d else d - 1)"
    by (simp add: ilog_def pq Let_def B_def d_def dp_def dq_def)
  show ?thesis
  proof (cases "power_int B d \<le> x")
    case True
    with il up show ?thesis by (simp add: B_def)
  next
    case False
    with il lo show ?thesis by (simp add: B_def)
  qed
qed

lemma power_int_less_exp:
  fixes B :: rat
  assumes "1 < B" "power_int B m < power_int B n"
  shows "m < n"
proof (rule ccontr)
  assume "\<not> m < n"
  then have "n \<le> m" by simp
  then have "power_int B n \<le> power_int B m"
    using assms(1) by (intro power_int_increasing) simp_all
  with assms(2) show False by simp
qed

lemma ilog_unique:
  assumes "1 < b" "power_int (of_int b) e \<le> x" "x < power_int (of_int b) (e + 1)"
  shows "ilog b x = e"
proof -
  define B :: rat where "B = of_int b"
  have B: "1 < B" using assms(1) by (simp add: B_def)
  have "0 < power_int B e" using B by (simp add: zero_less_power_int)
  with assms(2) have x: "0 < x" by (simp add: B_def)
  from ilog_bounds [OF x assms(1)]
  have k: "power_int B (ilog b x) \<le> x" "x < power_int B (ilog b x + 1)"
    by (simp_all add: B_def)
  have "power_int B (ilog b x) < power_int B (e + 1)"
    using k(1) assms(3) by (simp add: B_def)
  then have 1: "ilog b x < e + 1"
    using B by (rule power_int_less_exp [rotated])
  have "power_int B e < power_int B (ilog b x + 1)"
    using k(2) assms(2) by (simp add: B_def)
  then have 2: "e < ilog b x + 1"
    using B by (rule power_int_less_exp [rotated])
  from 1 2 show ?thesis by simp
qed


lemma rhe_floor: "\<lfloor>q\<rfloor> \<le> round_half_even q \<and> round_half_even q \<le> \<lfloor>q\<rfloor> + 1"
  by (simp add: round_half_even_def Let_def)

lemma rhe_of_int [simp]: "round_half_even (of_int n) = n"
  by (simp add: round_half_even_def)

lemma rhe_close: "\<bar>of_int (round_half_even q) - q\<bar> \<le> 1 / 2"
proof -
  have "of_int \<lfloor>q\<rfloor> \<le> q" "q < of_int \<lfloor>q\<rfloor> + 1" by linarith+
  then show ?thesis
    by (auto simp: round_half_even_def Let_def abs_le_iff)
qed

lemma rhe_mono:
  assumes "q \<le> q'"
  shows "round_half_even q \<le> round_half_even q'"
proof (cases "\<lfloor>q\<rfloor> = \<lfloor>q'\<rfloor>")
  case True
  with assms show ?thesis
    by (auto simp: round_half_even_def Let_def)
next
  case False
  with assms have "\<lfloor>q\<rfloor> < \<lfloor>q'\<rfloor>"
    by (simp add: floor_mono order.strict_iff_order)
  then have "round_half_even q \<le> \<lfloor>q'\<rfloor>"
    using rhe_floor [of q] by simp
  also have "\<dots> \<le> round_half_even q'"
    using rhe_floor [of q'] by simp
  finally show ?thesis .
qed

lemma rhe_ge: "of_int n \<le> q \<Longrightarrow> n \<le> round_half_even q"
  using rhe_mono [of "of_int n" q] by simp

lemma rhe_le: "q \<le> of_int n \<Longrightarrow> round_half_even q \<le> n"
  using rhe_mono [of q "of_int n"] by simp


lemma round_sig_0 [simp]: "round_sig b p 0 = 0"
  by (simp add: round_sig_def)

lemma round_sig_minus: "round_sig b p (- x) = - round_sig b p x"
  by (simp add: round_sig_def Let_def sgn_minus)

lemma round_sig_pos:
  "0 < x \<Longrightarrow> round_sig b p x
     = of_int (round_half_even (x / power_int (of_int b) (ilog b x - p + 1)))
       * power_int (of_int b) (ilog b x - p + 1)"
  by (simp add: round_sig_def Let_def)

lemma power_int_of_int_nonneg:
  "0 \<le> j \<Longrightarrow> power_int (of_int b :: rat) j = of_int (b ^ nat j)"
  by (simp add: power_int_def)

lemma scaled_range:
  assumes "0 < x" "1 < b" "1 \<le> p"
  defines "u \<equiv> power_int (of_int b :: rat) (ilog b x - p + 1)"
  shows "of_int (b ^ nat (p - 1)) \<le> x / u \<and> x / u < of_int (b ^ nat p)"
proof -
  define B :: rat where "B = of_int b"
  have B: "1 < B" "B \<noteq> 0" using assms(2) by (simp_all add: B_def)
  have u: "0 < u" using B by (simp add: u_def B_def zero_less_power_int)
  from ilog_bounds [OF assms(1,2)]
  have k: "power_int B (ilog b x) \<le> x" "x < power_int B (ilog b x + 1)"
    by (simp_all add: B_def)
  have "power_int B (p - 1) * u = power_int B (ilog b x)"
    using B by (simp add: u_def B_def [symmetric] power_int_add [symmetric])
  with k(1) have "power_int B (p - 1) * u \<le> x" by simp
  then have lo: "power_int B (p - 1) \<le> x / u"
    using u by (simp add: pos_le_divide_eq)
  have "power_int B p * u = power_int B (ilog b x + 1)"
    using B by (simp add: u_def B_def [symmetric] power_int_add [symmetric])
  with k(2) have "x < power_int B p * u" by simp
  then have hi: "x / u < power_int B p"
    using u by (simp add: pos_divide_less_eq)
  from lo hi assms(3) show ?thesis
    by (simp add: B_def power_int_of_int_nonneg)
qed

lemma round_sig_range:
  assumes "0 < x" "1 < b" "1 \<le> p"
  shows "power_int (of_int b) (ilog b x) \<le> round_sig b p x
       \<and> round_sig b p x \<le> power_int (of_int b) (ilog b x + 1)"
proof -
  define B :: rat where "B = of_int b"
  have B: "1 < B" "B \<noteq> 0" using assms(2) by (simp_all add: B_def)
  define u where "u = power_int B (ilog b x - p + 1)"
  have u: "0 < u" using B by (simp add: u_def zero_less_power_int)
  define m where "m = round_half_even (x / u)"
  from scaled_range [OF assms]
  have q: "of_int (b ^ nat (p - 1)) \<le> x / u" "x / u \<le> of_int (b ^ nat p)"
    by (simp_all add: u_def B_def)
  have m: "b ^ nat (p - 1) \<le> m" "m \<le> b ^ nat p"
    using rhe_ge [OF q(1)] rhe_le [OF q(2)] by (simp_all add: m_def)
  have r: "round_sig b p x = of_int m * u"
    using assms(1) by (simp add: round_sig_pos m_def u_def B_def)
  have "power_int B (ilog b x) = power_int B (p - 1) * u"
    using B by (simp add: u_def power_int_add [symmetric])
  also have "\<dots> = of_int (b ^ nat (p - 1)) * u"
    using assms(3) by (simp add: B_def power_int_of_int_nonneg)
  also have "\<dots> \<le> of_int m * u"
    using m(1) u by (intro mult_right_mono) simp_all
  finally have lo: "power_int B (ilog b x) \<le> round_sig b p x" by (simp add: r)
  have "of_int m * u \<le> of_int (b ^ nat p) * u"
    using m(2) u by (intro mult_right_mono) simp_all
  also have "\<dots> = power_int B p * u"
    using assms(3) by (simp add: B_def power_int_of_int_nonneg)
  also have "\<dots> = power_int B (ilog b x + 1)"
    using B by (simp add: u_def power_int_add [symmetric])
  finally have hi: "round_sig b p x \<le> power_int B (ilog b x + 1)" by (simp add: r)
  from lo hi show ?thesis by (simp add: B_def)
qed

lemma round_sig_pos_pos:
  assumes "0 < x" "1 < b" "1 \<le> p"
  shows "0 < round_sig b p x"
proof -
  have "(0::rat) < power_int (of_int b) (ilog b x)"
    using assms(2) by (simp add: zero_less_power_int)
  with round_sig_range [OF assms] show ?thesis by simp
qed

lemma ilog_mono:
  assumes "0 < x" "x \<le> y" "1 < b"
  shows "ilog b x \<le> ilog b y"
proof -
  define B :: rat where "B = of_int b"
  have B: "1 < B" using assms(3) by (simp add: B_def)
  have y: "0 < y" using assms by simp
  have "power_int B (ilog b x) \<le> x"
    using ilog_bounds [OF assms(1,3)] by (simp add: B_def)
  also note assms(2)
  also have "y < power_int B (ilog b y + 1)"
    using ilog_bounds [OF y assms(3)] by (simp add: B_def)
  finally have "ilog b x < ilog b y + 1"
    using B by (rule power_int_less_exp [rotated])
  then show ?thesis by simp
qed

lemma round_sig_mono_pos:
  assumes "0 < x" "x \<le> y" "1 < b" "1 \<le> p"
  shows "round_sig b p x \<le> round_sig b p y"
proof -
  define B :: rat where "B = of_int b"
  have B: "1 < B" using assms(3) by (simp add: B_def)
  have y: "0 < y" using assms by simp
  show ?thesis
  proof (cases "ilog b x = ilog b y")
    case True
    define u where "u = power_int B (ilog b y - p + 1)"
    have u: "0 < u" using B by (simp add: u_def zero_less_power_int)
    have "x / u \<le> y / u"
      using assms(2) u by (simp add: divide_right_mono)
    then have "round_half_even (x / u) \<le> round_half_even (y / u)"
      by (rule rhe_mono)
    then have "(of_int (round_half_even (x / u)) :: rat) * u \<le> of_int (round_half_even (y / u)) * u"
      using u by (intro mult_right_mono) simp_all
    then show ?thesis
      using assms(1) y True by (simp add: round_sig_pos u_def B_def)
  next
    case False
    with ilog_mono [OF assms(1,2,3)] have "ilog b x + 1 \<le> ilog b y" by simp
    then have step: "power_int B (ilog b x + 1) \<le> power_int B (ilog b y)"
      using B by (intro power_int_increasing) simp_all
    have "round_sig b p x \<le> power_int B (ilog b x + 1)"
      using round_sig_range [OF assms(1,3,4)] by (simp add: B_def)
    also note step
    also have "power_int B (ilog b y) \<le> round_sig b p y"
      using round_sig_range [OF y assms(3,4)] by (simp add: B_def)
    finally show ?thesis .
  qed
qed

lemma round_sig_mono:
  assumes "x \<le> y" "1 < b" "1 \<le> p"
  shows "round_sig b p x \<le> round_sig b p y"
proof -
  consider "0 < x" | "x \<le> 0" "0 \<le> y" | "y < 0" by linarith
  then show ?thesis
  proof cases
    case 1
    then show ?thesis using assms by (simp add: round_sig_mono_pos)
  next
    case 2
    have "round_sig b p x \<le> 0"
    proof (cases "x = 0")
      case False
      with 2 have "0 < - x" by simp
      from round_sig_pos_pos [OF this assms(2,3)] show ?thesis
        by (simp add: round_sig_minus)
    qed simp
    moreover have "0 \<le> round_sig b p y"
    proof (cases "y = 0")
      case False
      with 2 have "0 < y" by simp
      from round_sig_pos_pos [OF this assms(2,3)] show ?thesis by simp
    qed simp
    ultimately show ?thesis by simp
  next
    case 3
    then have "0 < - y" "- y \<le> - x" using assms(1) by simp_all
    from round_sig_mono_pos [OF this assms(2,3)] show ?thesis
      by (simp add: round_sig_minus)
  qed
qed

lemma round_sig_exact_pos:
  assumes "1 < b" "1 \<le> p" "0 < m" "m < b ^ nat p"
  shows "round_sig b p (of_int m * power_int (of_int b) e) = of_int m * power_int (of_int b) e"
proof -
  define B :: rat where "B = of_int b"
  have B: "1 < B" "B \<noteq> 0" using assms(1) by (simp_all add: B_def)
  define x where "x = of_int m * power_int B e"
  have pe: "0 < power_int B e" using B by (simp add: zero_less_power_int)
  have x: "0 < x" using assms(3) pe by (simp add: x_def)
  define k where "k = ilog b x"
  define u where "u = power_int B (k - p + 1)"
  have u: "0 < u" using B by (simp add: u_def zero_less_power_int)
  have "power_int B k \<le> x"
    using ilog_bounds [OF x assms(1)] by (simp add: B_def k_def)
  also have "x < of_int (b ^ nat p) * power_int B e"
    unfolding x_def using assms(4) pe by (intro mult_strict_right_mono) simp_all
  also have "of_int (b ^ nat p) = power_int B p"
    using assms(2) by (simp add: B_def power_int_of_int_nonneg)
  also have "power_int B p * power_int B e = power_int B (p + e)"
    using B by (simp add: power_int_add)
  finally have "k < p + e"
    using B(1) by (rule power_int_less_exp [rotated])
  then have j: "0 \<le> e - (k - p + 1)" by simp
  have "x / u = of_int m * (power_int B e / u)" by (simp add: x_def)
  also have "power_int B e / u = power_int B (e - (k - p + 1))"
    using B by (simp add: u_def power_int_diff)
  also have "\<dots> = of_int (b ^ nat (e - (k - p + 1)))"
    using j by (simp add: B_def power_int_of_int_nonneg)
  finally have "x / u = of_int (m * b ^ nat (e - (k - p + 1)))" by simp
  then obtain n where "x / u = of_int n" ..
  then have "of_int (round_half_even (x / u)) = x / u"
    by (simp only: rhe_of_int)
  then have "round_sig b p x = x / u * u"
    using x by (simp add: round_sig_pos u_def k_def B_def)
  also have "\<dots> = x" using u by simp
  finally show ?thesis by (simp add: x_def B_def)
qed

lemma round_sig_exact:
  assumes "1 < b" "1 \<le> p" "\<bar>m\<bar> < b ^ nat p"
  shows "round_sig b p (of_int m * power_int (of_int b) e) = of_int m * power_int (of_int b) e"
proof -
  consider "0 < m" | "m = 0" | "m < 0" by linarith
  then show ?thesis
  proof cases
    case 1
    with assms show ?thesis by (simp add: round_sig_exact_pos)
  next
    case 2
    then show ?thesis by simp
  next
    case 3
    with assms have "0 < - m" "- m < b ^ nat p" by simp_all
    from round_sig_exact_pos [OF assms(1,2) this, of e] show ?thesis
      using round_sig_minus [of b p "of_int m * power_int (of_int b) e"] by simp
  qed
qed

lemma round_sig_error_pos:
  assumes "0 < x" "1 < b" "1 \<le> p"
  shows "\<bar>round_sig b p x - x\<bar> \<le> x * power_int (of_int b) (1 - p) / 2"
proof -
  define B :: rat where "B = of_int b"
  have B: "1 < B" "B \<noteq> 0" using assms(2) by (simp_all add: B_def)
  define u where "u = power_int B (ilog b x - p + 1)"
  have u: "0 < u" using B by (simp add: u_def zero_less_power_int)
  define m where "m = round_half_even (x / u)"
  have r: "round_sig b p x = of_int m * u"
    using assms(1) by (simp add: round_sig_pos m_def u_def B_def)
  have "round_sig b p x - x = (of_int m - x / u) * u"
    using u by (simp add: r algebra_simps)
  then have "\<bar>round_sig b p x - x\<bar> = \<bar>of_int m - x / u\<bar> * u"
    using u by (simp add: abs_mult)
  also have "\<dots> \<le> 1 / 2 * u"
    using rhe_close [of "x / u"] u unfolding m_def by (intro mult_right_mono) simp_all
  also have "u = power_int B (ilog b x) * power_int B (1 - p)"
  proof -
    have "ilog b x - p + 1 = ilog b x + (1 - p)" by simp
    then show ?thesis
      using B unfolding u_def by (simp only: power_int_add [OF disjI1 [OF B(2)]])
  qed
  also have "1 / 2 * (power_int B (ilog b x) * power_int B (1 - p)) \<le> 1 / 2 * (x * power_int B (1 - p))"
  proof -
    have "power_int B (ilog b x) \<le> x"
      using ilog_bounds [OF assms(1,2)] by (simp add: B_def)
    moreover have "0 \<le> power_int B (1 - p)"
      using B by (simp add: zero_le_power_int)
    ultimately show ?thesis by (simp add: mult_right_mono)
  qed
  finally show ?thesis by (simp add: B_def)
qed

lemma round_sig_error:
  assumes "1 < b" "1 \<le> p"
  shows "\<bar>round_sig b p x - x\<bar> \<le> \<bar>x\<bar> * power_int (of_int b) (1 - p) / 2"
proof -
  consider "0 < x" | "x = 0" | "x < 0" by linarith
  then show ?thesis
  proof cases
    case 1
    with round_sig_error_pos [OF 1 assms] show ?thesis by simp
  next
    case 2
    then show ?thesis by simp
  next
    case 3
    then have "0 < - x" by simp
    from round_sig_error_pos [OF this assms] 3 show ?thesis
      by (simp add: round_sig_minus abs_minus_commute)
  qed
qed

lemma rhe_near:
  assumes "\<bar>q - of_int m\<bar> < 1 / 2"
  shows "round_half_even q = m"
proof -
  have f: "of_int \<lfloor>q\<rfloor> \<le> q" "q < of_int \<lfloor>q\<rfloor> + 1" by linarith+
  from assms have a: "q - of_int m < 1 / 2" "of_int m - q < 1 / 2" by linarith+
  show ?thesis
  proof (cases "q - of_int \<lfloor>q\<rfloor> < 1 / 2")
    case True
    have "of_int m < of_int \<lfloor>q\<rfloor> + (1::rat)" using a(2) True by linarith
    moreover have "of_int \<lfloor>q\<rfloor> < of_int m + (1::rat)" using a(1) f(1) by linarith
    ultimately have "m < \<lfloor>q\<rfloor> + 1" "\<lfloor>q\<rfloor> < m + 1"
      by (metis of_int_less_iff of_int_add of_int_1)+
    then have "\<lfloor>q\<rfloor> = m" by simp
    with True show ?thesis by (simp add: round_half_even_def Let_def)
  next
    case False
    have "of_int m - 1 < (of_int \<lfloor>q\<rfloor> :: rat) + 1" using a(2) f(2) by linarith
    moreover have "of_int \<lfloor>q\<rfloor> + 1 < of_int m + (1::rat)" using a(1) False by linarith
    ultimately have "of_int (m - 1) < (of_int (\<lfloor>q\<rfloor> + 1) :: rat)" "(of_int (\<lfloor>q\<rfloor> + 1) :: rat) < of_int (m + 1)"
      by simp_all
    then have "m - 1 < \<lfloor>q\<rfloor> + 1" "\<lfloor>q\<rfloor> + 1 < m + 1"
      by (simp_all only: of_int_less_iff)
    then have m: "\<lfloor>q\<rfloor> + 1 = m" by simp
    have "1 / 2 < q - of_int \<lfloor>q\<rfloor>"
    proof (rule ccontr)
      assume "\<not> 1 / 2 < q - of_int \<lfloor>q\<rfloor>"
      with False have "q - of_int \<lfloor>q\<rfloor> = 1 / 2" by simp
      then have "of_int m - q = 1 / 2" using m [symmetric] by simp
      with a(2) show False by simp
    qed
    with False m show ?thesis by (simp add: round_half_even_def Let_def)
  qed
qed

lemma round_sig_eval:
  assumes "1 < b" and "power_int (of_int b) e \<le> x" and "x < power_int (of_int b) (e + 1)"
    and "\<bar>x / power_int (of_int b) (e - p + 1) - of_int m\<bar> < 1 / 2"
  shows "round_sig b p x = of_int m * power_int (of_int b) (e - p + 1)"
proof -
  have "(0::rat) < power_int (of_int b) e"
    using assms(1) by (simp add: zero_less_power_int)
  with assms(2) have x: "0 < x" by simp
  have "ilog b x = e" using assms(1,2,3) by (rule ilog_unique)
  with x rhe_near [OF assms(4)] show ?thesis by (simp add: round_sig_pos)
qed


lemma rhe_tie:
  assumes "q = of_int n + 1 / 2"
  shows "round_half_even q = (if even n then n else n + 1)"
proof -
  have "of_int n \<le> q" "q < of_int (n + 1)" using assms by simp_all
  then have "\<lfloor>q\<rfloor> = n" by (simp add: floor_unique)
  then show ?thesis using assms by (simp add: round_half_even_def Let_def)
qed

lemma round_sig_eval_tie:
  assumes "1 < b" and "power_int (of_int b) e \<le> x" and "x < power_int (of_int b) (e + 1)"
    and "x / power_int (of_int b) (e - p + 1) = of_int n + 1 / 2"
  shows "round_sig b p x
    = of_int (if even n then n else n + 1) * power_int (of_int b) (e - p + 1)"
proof -
  have "(0::rat) < power_int (of_int b) e"
    using assms(1) by (simp add: zero_less_power_int)
  with assms(2) have x: "0 < x" by simp
  have "ilog b x = e" using assms(1,2,3) by (rule ilog_unique)
  with x rhe_tie [OF assms(4)] show ?thesis by (simp add: round_sig_pos)
qed

lemma round_sig_eval_neg:
  assumes "1 < b" and "power_int (of_int b) e \<le> - x" and "- x < power_int (of_int b) (e + 1)"
    and "\<bar>- x / power_int (of_int b) (e - p + 1) - of_int m\<bar> < 1 / 2"
  shows "round_sig b p x = - (of_int m * power_int (of_int b) (e - p + 1))"
  using round_sig_eval [OF assms] round_sig_minus [of b p x] by simp

subsection \<open>The two formats\<close>

lemma dec_round_minus: "dec_round (- x) = - dec_round x"
  by (simp add: dec_round_def round_sig_minus)

lemma dec_round_exact:
  "\<bar>m\<bar> < 10 ^ 28 \<Longrightarrow> dec_round (of_int m * power_int 10 e) = of_int m * power_int 10 e"
  using round_sig_exact [of 10 28 m e] by (simp add: dec_round_def prec_def)

lemma dec_round_int: "\<bar>m\<bar> < 10 ^ 28 \<Longrightarrow> dec_round (of_int m) = of_int m"
  using dec_round_exact [of m 0] by simp

lemma dec_round_mono: "x \<le> y \<Longrightarrow> dec_round x \<le> dec_round y"
  by (simp add: dec_round_def prec_def round_sig_mono)

lemma dec_round_error: "\<bar>dec_round x - x\<bar> \<le> unit_roundoff * \<bar>x\<bar>"
  using round_sig_error [of 10 28 x]
  by (simp add: dec_round_def prec_def unit_roundoff_def power_int_minus_divide)

lemma fl_round_minus: "fl_round (- x) = - fl_round x"
  by (simp add: fl_round_def round_sig_minus)

lemma fl_round_exact:
  "\<bar>m\<bar> < 2 ^ 53 \<Longrightarrow> fl_round (of_int m * power_int 2 e) = of_int m * power_int 2 e"
  using round_sig_exact [of 2 53 m e] by (simp add: fl_round_def)

lemma fl_round_mono: "x \<le> y \<Longrightarrow> fl_round x \<le> fl_round y"
  by (simp add: fl_round_def round_sig_mono)

subsection \<open>The factor and the price\<close>

lemma lit_0_5_eq: "lit_0_5 = 1 / 2"
  using fl_round_exact [of 1 "- 1"] by (simp add: lit_0_5_def)

lemma fl_round_half: "fl_round (1 / 2) = 1 / 2"
  using fl_round_exact [of 1 "- 1"] by simp

lemma lit_0_2_eq: "lit_0_2 = 3602879701896397 / 18014398509481984"
  using round_sig_eval [where b = 2 and p = 53 and x = "1 / 5"
      and e = "- 3" and m = 7205759403792794]
  by (simp add: lit_0_2_def fl_round_def)

text \<open>The three constants are the doubles nearest to 0.1, 0.9 and 1.1.\<close>

lemma float_0_1_nearest: "fl_round (1 / 10) = float_0_1"
  using round_sig_eval [where b = 2 and p = 53 and x = "1 / 10" and e = "- 4"
      and m = 7205759403792794]
  by (simp add: fl_round_def float_0_1_def)

lemma float_0_9_nearest: "fl_round (9 / 10) = float_0_9"
  using round_sig_eval [where b = 2 and p = 53 and x = "9 / 10" and e = "- 1"
      and m = 8106479329266893]
  by (simp add: fl_round_def float_0_9_def)

lemma float_1_1_nearest: "fl_round (11 / 10) = float_1_1"
  using round_sig_eval [where b = 2 and p = 53 and x = "11 / 10" and e = 0
      and m = 4953959590107546]
  by (simp add: fl_round_def float_1_1_def)

lemma fl_round_tenth: "fl_round float_0_1 = float_0_1"
  using fl_round_exact [of 3602879701896397 "- 55"] by (simp add: float_0_1_def)

lemma fl_round_low: "fl_round (1 - float_0_1) = float_0_9"
  using round_sig_eval [where b = 2 and p = 53 and x = "32425917317067571 / 36028797018963968"
      and e = "- 1" and m = 8106479329266893]
  by (simp add: fl_round_def float_0_1_def float_0_9_def)

lemma fl_round_high: "fl_round (1 + float_0_1) = float_1_1"
  using round_sig_eval [where b = 2 and p = 53 and x = "39631676720860365 / 36028797018963968"
      and e = 0 and m = 4953959590107546]
  by (simp add: fl_round_def float_0_1_def float_1_1_def)

lemma price_factor_bounds:
  assumes "0 \<le> r" "r \<le> 1"
  shows "float_0_9 \<le> price_factor r \<and> price_factor r \<le> float_1_1"
proof -
  define a where "a = fl_sub r lit_0_5"
  define b where "b = fl_mul a lit_0_2"
  have pf: "price_factor r = fl_round (1 + b)"
    by (simp add: price_factor_def fl_add_def a_def b_def)
  have "fl_round (- (1 / 2)) \<le> a" "a \<le> fl_round (1 / 2)"
    unfolding a_def fl_sub_def lit_0_5_eq using assms by (auto intro!: fl_round_mono)
  then have a: "- (1 / 2) \<le> a" "a \<le> 1 / 2"
    by (simp_all add: fl_round_minus fl_round_half)
  have l: "lit_0_2 = 2 * float_0_1" "0 < float_0_1"
    by (simp_all add: lit_0_2_eq float_0_1_def)
  have l0: "0 \<le> lit_0_2" using l by simp
  have "- (1 / 2) * lit_0_2 \<le> a * lit_0_2"
    by (rule mult_right_mono [OF a(1) l0])
  moreover have "a * lit_0_2 \<le> 1 / 2 * lit_0_2"
    by (rule mult_right_mono [OF a(2) l0])
  ultimately
  have "- float_0_1 \<le> a * lit_0_2" "a * lit_0_2 \<le> float_0_1"
    by (simp_all add: l(1))
  then have "fl_round (- float_0_1) \<le> b" "b \<le> fl_round float_0_1"
    unfolding b_def fl_mul_def by (auto intro!: fl_round_mono)
  then have b: "- float_0_1 \<le> b" "b \<le> float_0_1"
    by (simp_all add: fl_round_minus fl_round_tenth)
  have "fl_round (1 - float_0_1) \<le> fl_round (1 + b)" "fl_round (1 + b) \<le> fl_round (1 + float_0_1)"
    using b by (auto intro!: fl_round_mono)
  then show ?thesis
    by (simp add: pf fl_round_low fl_round_high)
qed

lemma current_price_bounds:
  assumes "0 \<le> r" "r \<le> 1" "0 \<le> c"
  shows "9 / 10 * c \<le> current_price c r
       \<and> current_price c r \<le> 11000000000000001 / 10000000000000000 * c"
proof -
  define f where "f = price_factor r"
  from price_factor_bounds [OF assms(1,2)] have f: "float_0_9 \<le> f" "f \<le> float_1_1"
    by (simp_all add: f_def)
  have f0: "0 \<le> f" using f(1) by (simp add: float_0_9_def)
  have cf: "0 \<le> c * f" using assms(3) f0 by simp
  have p: "current_price c r = dec_round (c * f)"
    by (simp add: current_price_def dec_mul_def Decimal_def f_def)
  from dec_round_error [of "c * f"] cf
  have e: "c * f - unit_roundoff * (c * f) \<le> dec_round (c * f)"
    "dec_round (c * f) \<le> c * f + unit_roundoff * (c * f)"
    by (simp_all add: abs_le_iff)
  have lo1: "c * float_0_9 \<le> c * f" using f(1) assms(3) by (rule mult_left_mono)
  have hi1: "c * f \<le> c * float_1_1" using f(2) assms(3) by (rule mult_left_mono)
  have "9 / 10 * c \<le> (1 - unit_roundoff) * (c * float_0_9)"
    using assms(3) by (simp add: unit_roundoff_def float_0_9_def)
  also have "\<dots> \<le> (1 - unit_roundoff) * (c * f)"
    by (rule mult_left_mono [OF lo1]) (simp add: unit_roundoff_def)
  also have "\<dots> \<le> dec_round (c * f)"
    using e(1) by (simp add: algebra_simps)
  finally have lo: "9 / 10 * c \<le> current_price c r" by (simp add: p)
  have "dec_round (c * f) \<le> (1 + unit_roundoff) * (c * f)"
    using e(2) by (simp add: algebra_simps)
  also have "\<dots> \<le> (1 + unit_roundoff) * (c * float_1_1)"
    by (rule mult_left_mono [OF hi1]) (simp add: unit_roundoff_def)
  also have "\<dots> \<le> 11000000000000001 / 10000000000000000 * c"
    using assms(3) by (simp add: unit_roundoff_def float_1_1_def)
  finally have hi: "current_price c r \<le> 11000000000000001 / 10000000000000000 * c"
    by (simp add: p)
  from lo hi show ?thesis ..
qed

section \<open>Units of work\<close>

lemmas conn_defs = get_db_connection_def commit_def rollback_def close_def

lemma tabs_close_rollback: "tabs (close (rollback conn)) = committed conn"
  by (simp add: close_def rollback_def)

lemma tabs_close_commit: "tabs (close (commit conn)) = pending conn"
  by (simp add: close_def commit_def)

lemma insert_asset_committed:
  "insert_asset sch account_id ticker asset_class purchase_date shares cost_basis conn = (r, conn')
     \<Longrightarrow> committed conn' = committed conn"
  by (auto simp: insert_asset_def Let_def split: if_splits)

lemma insert_transaction_committed:
  "insert_transaction sch asset_id purchase_date shares total_amount conn = (r, conn')
     \<Longrightarrow> committed conn' = committed conn"
  by (auto simp: insert_transaction_def Let_def split: if_splits)

lemma dec_round_0: "dec_round 0 = 0"
  by (simp add: dec_round_def round_sig_def)

lemma dec_mul_million: "dec_mul 1000000 1000000 = 1000000000000"
  using dec_round_int [of 1000000000000] by (simp add: dec_mul_def)

lemma dec_mul_example: "dec_mul 10 150 = 1500"
  using dec_round_int [of 1500] by (simp add: dec_mul_def)

section \<open>create\_user\_and\_account\<close>

text \<open>
  Claim C1 (bootstrap is idempotent: two calls with the same inputs return identical
  pairs of identifiers and insert no duplicate rows). On the store before the first
  run, the first call inserts the user and the account and returns the integers
  \<open>(1, 1)\<close>, taken out of the rows returned by the two inserts. The second call, on
  the store the first call left, finds both rows and inserts nothing, but it returns the
  rows of its two lookups as they are, the tuples \<open>((1,), (1,))\<close>: the lookup branch
  lacks the \<^verbatim>\<open>[0]\<close> that the insert branch has. The two pairs are different
  Python values.
\<close>

theorem bootstrap_second_call_returns_rows:
  "bootstrap accept_all fresh_db = ((Some (Scalar 1), Some (Scalar 1)), bootstrapped_db)
   \<and> bootstrap accept_all bootstrapped_db = ((Some (Row1 1), Some (Row1 1)), bootstrapped_db)
   \<and> fst (bootstrap accept_all fresh_db) \<noteq> fst (bootstrap accept_all bootstrapped_db)"
  by (simp add: bootstrap_def create_user_and_account_def accept_all_def fresh_db_def
      bootstrapped_db_def conn_defs select_user_id_def insert_user_def select_account_id_def
      insert_account_def Let_def)

section \<open>create\_asset\_and\_transaction\<close>

text \<open>
  Claim C3 (the two inserts are one unit of work). Whenever the function does not
  report success, the four tables are what they were before the call and the message
  is \<^verbatim>\<open>Error creating asset: \<close> followed by the text of the error. In particular, when
  the Asset insert has gone through and the Transaction insert raises, the Asset row is
  not in the store afterwards. (The identifier generators are not table data: a value
  they handed out stays used.)
\<close>

theorem create_asset_and_transaction_atomic:
  assumes "create_asset_and_transaction sch user_id account_id ticker asset_class
             purchase_date shares cost_basis db = (msg, db')"
  shows "(msg = ''Asset and transaction created successfully.''
          \<or> tabs db' = tabs db \<and> (\<exists>e. msg = ''Error creating asset: '' @ str_error e))
       \<and> (\<forall>asset_id conn e conn'.
            insert_asset sch account_id ticker asset_class purchase_date (Decimal shares)
              (Decimal cost_basis) (get_db_connection db) = (Inr asset_id, conn)
            \<and> insert_transaction sch asset_id purchase_date (Decimal shares)
                (dec_mul (Decimal shares) (Decimal cost_basis)) conn = (Inl e, conn')
            \<longrightarrow> msg = ''Error creating asset: '' @ str_error e \<and> tabs db' = tabs db)"
proof -
  define c0 where "c0 = get_db_connection db"
  have c0: "committed c0 = tabs db"
    by (simp add: c0_def get_db_connection_def)
  obtain r1 c1 where i1:
    "insert_asset sch account_id ticker asset_class purchase_date (Decimal shares)
       (Decimal cost_basis) c0 = (r1, c1)"
    by (cases "insert_asset sch account_id ticker asset_class purchase_date (Decimal shares)
                 (Decimal cost_basis) c0")
  have c1: "committed c1 = tabs db"
    using insert_asset_committed [OF i1] c0 by simp
  show ?thesis
  proof (cases r1)
    case (Inl e)
    with assms show ?thesis
      unfolding create_asset_and_transaction_def Let_def c0_def [symmetric] i1
      by (auto simp: tabs_close_rollback c1)
  next
    case (Inr asset_id)
    obtain r2 c2 where i2:
      "insert_transaction sch asset_id purchase_date (Decimal shares)
         (dec_mul (Decimal shares) (Decimal cost_basis)) c1 = (r2, c2)"
      by (cases "insert_transaction sch asset_id purchase_date (Decimal shares)
                   (dec_mul (Decimal shares) (Decimal cost_basis)) c1")
    have c2: "committed c2 = tabs db"
      using insert_transaction_committed [OF i2] c1 by simp
    from assms show ?thesis
      unfolding create_asset_and_transaction_def Let_def c0_def [symmetric] i1 Inr
      by (cases r2) (auto simp: i2 tabs_close_rollback c2)
  qed
qed

theorem create_asset_and_transaction_atomic_witness:
  "create_asset_and_transaction narrow_amount (Scalar 1) (Row1 1) ''AAPL'' ''Equity''
     (2024, 1, 1) 1000000 1000000 bootstrapped_db
     = (''Error creating asset: new row violates a constraint of the relation'',
        bootstrapped_db\<lparr>gens := (gens bootstrapped_db)\<lparr>next_asset_id := 2,
                                                        next_transaction_id := 2\<rparr>\<rparr>)
   \<and> fst (insert_asset narrow_amount (Row1 1) ''AAPL'' ''Equity'' (2024, 1, 1)
            (Decimal 1000000) (Decimal 1000000) (get_db_connection bootstrapped_db)) = Inr 1
   \<and> Assets (tabs (snd (create_asset_and_transaction narrow_amount (Scalar 1) (Row1 1)
        ''AAPL'' ''Equity'' (2024, 1, 1) 1000000 1000000 bootstrapped_db))) = []"
proof -
  have run:
    "create_asset_and_transaction narrow_amount (Scalar 1) (Row1 1) ''AAPL'' ''Equity''
       (2024, 1, 1) 1000000 1000000 bootstrapped_db
       = (''Error creating asset: new row violates a constraint of the relation'',
          bootstrapped_db\<lparr>gens := (gens bootstrapped_db)\<lparr>next_asset_id := 2,
                                                          next_transaction_id := 2\<rparr>\<rparr>)"
    by (simp add: create_asset_and_transaction_def insert_asset_def insert_transaction_def
        narrow_amount_def accept_all_def bootstrapped_db_def conn_defs Decimal_def
        dec_mul_million Let_def)
  have first: "fst (insert_asset narrow_amount (Row1 1) ''AAPL'' ''Equity'' (2024, 1, 1)
      (Decimal 1000000) (Decimal 1000000) (get_db_connection bootstrapped_db)) = Inr 1"
    by (simp add: insert_asset_def narrow_amount_def accept_all_def bootstrapped_db_def
        conn_defs Decimal_def Let_def)
  from create_asset_and_transaction_atomic [OF run] have
    "tabs (bootstrapped_db\<lparr>gens := (gens bootstrapped_db)\<lparr>next_asset_id := 2,
        next_transaction_id := 2\<rparr>\<rparr>) = tabs bootstrapped_db"
    by simp
  then show ?thesis
    using run first by (simp add: bootstrapped_db_def)
qed

lemma tenth_amount:
  "dec_mul (3602879701896397 / 36028797018963968) 150
     = 1500000000000000083266726847 / 100000000000000000000000000"
  using round_sig_eval [where b = 10 and p = 28 and x = "270215977642229775 / 18014398509481984"
      and e = 1 and m = 1500000000000000083266726847]
  by (simp add: dec_mul_def dec_round_def prec_def)

lemma create_aapl:
  "create_asset_and_transaction accept_all (Scalar 1) (Row1 1) ''AAPL'' ''Equity'' (2024, 1, 1)
     10 150 bootstrapped_db = (''Asset and transaction created successfully.'', one_asset_db)"
  by (simp add: create_asset_and_transaction_def insert_asset_def insert_transaction_def
      accept_all_def bootstrapped_db_def one_asset_db_def aapl_def aapl_buy_def conn_defs
      Decimal_def dec_mul_example Let_def)

text \<open>
  Claim C4 (a successful call creates exactly one Asset row with the given cost basis and
  exactly one BUY Transaction row with amount = shares \<times> cost\_basis). As stated the
  claim fails: the amount is a \<^verbatim>\<open>Decimal\<close> product, rounded to 28 significant digits. The
  page passes floats, and \<^verbatim>\<open>Decimal(0.1)\<close> is the 55-digit value of the double; for 0.1
  shares at 150.00 the amount stored is 15.00000000000000083266726847, which is not
  the product of the two values.
\<close>

theorem create_asset_and_transaction_amount_rounded:
  "create_asset_and_transaction accept_all (Scalar 1) (Row1 1) ''AAPL'' ''Equity'' (2024, 1, 1)
     float_0_1 150 bootstrapped_db
   = (''Asset and transaction created successfully.'',
      \<lparr>tabs = (tabs bootstrapped_db)
         \<lparr>Assets := [aapl\<lparr>as_shares := float_0_1\<rparr>],
          Transactions := [aapl_buy\<lparr>tx_shares := float_0_1,
                             tx_amount := 1500000000000000083266726847 / 10 ^ 26\<rparr>]\<rparr>,
       gens = gens one_asset_db\<rparr>)
   \<and> 1500000000000000083266726847 / 10 ^ 26 \<noteq> float_0_1 * 150"
  by (simp add: create_asset_and_transaction_def insert_asset_def insert_transaction_def
      accept_all_def bootstrapped_db_def one_asset_db_def aapl_def aapl_buy_def conn_defs
      Decimal_def float_0_1_def tenth_amount Let_def)

text \<open>
  Claim C4, amended. A successful call appends exactly one Asset row, with the values
  given, and exactly one Transaction row of type BUY for it, whose amount is
  shares \<times> cost\_basis rounded to 28 significant digits; Users and Accounts are
  unchanged. The amount is the product itself whenever the product has at most 28
  significant digits, as in the example of the spec (10 shares at 150.00 give 1500.00).
\<close>

theorem create_asset_and_transaction_rows:
  assumes "create_asset_and_transaction sch user_id account_id ticker asset_class
             purchase_date shares cost_basis db
           = (''Asset and transaction created successfully.'', db')"
  shows "Assets (tabs db') = Assets (tabs db) @
           [\<lparr>as_asset_id = next_asset_id (gens db), as_account_id = sql_int account_id,
             as_ticker_symbol = ticker, as_asset_class = asset_class,
             as_purchase_date = purchase_date, as_shares = shares,
             as_cost_basis = cost_basis\<rparr>]
       \<and> Transactions (tabs db') = Transactions (tabs db) @
           [\<lparr>tx_transaction_id = next_transaction_id (gens db),
             tx_asset_id = next_asset_id (gens db), tx_transaction_type = ''BUY'',
             tx_transaction_date = purchase_date, tx_shares = shares,
             tx_amount = dec_round (shares * cost_basis)\<rparr>]
       \<and> Users (tabs db') = Users (tabs db) \<and> Accounts (tabs db') = Accounts (tabs db)
       \<and> (\<forall>m e. shares * cost_basis = of_int m * power_int 10 e \<and> \<bar>m\<bar> < 10 ^ 28
            \<longrightarrow> dec_round (shares * cost_basis) = shares * cost_basis)"
proof -
  have exact: "\<forall>m e. shares * cost_basis = of_int m * power_int 10 e \<and> \<bar>m\<bar> < 10 ^ 28
            \<longrightarrow> dec_round (shares * cost_basis) = shares * cost_basis"
    by (auto simp: dec_round_exact)
  from assms have rows:
    "Assets (tabs db') = Assets (tabs db) @
           [\<lparr>as_asset_id = next_asset_id (gens db), as_account_id = sql_int account_id,
             as_ticker_symbol = ticker, as_asset_class = asset_class,
             as_purchase_date = purchase_date, as_shares = shares,
             as_cost_basis = cost_basis\<rparr>]
       \<and> Transactions (tabs db') = Transactions (tabs db) @
           [\<lparr>tx_transaction_id = next_transaction_id (gens db),
             tx_asset_id = next_asset_id (gens db), tx_transaction_type = ''BUY'',
             tx_transaction_date = purchase_date, tx_shares = shares,
             tx_amount = dec_round (shares * cost_basis)\<rparr>]
       \<and> Users (tabs db') = Users (tabs db) \<and> Accounts (tabs db') = Accounts (tabs db)"
    by (auto simp: create_asset_and_transaction_def insert_asset_def insert_transaction_def
        conn_defs Decimal_def dec_mul_def Let_def split: if_splits)
  with exact show ?thesis by blast
qed

theorem create_asset_and_transaction_rows_witness:
  "create_asset_and_transaction accept_all (Scalar 1) (Row1 1) ''AAPL'' ''Equity'' (2024, 1, 1)
     10 150 bootstrapped_db = (''Asset and transaction created successfully.'', one_asset_db)
   \<and> Assets (tabs one_asset_db) = [aapl] \<and> Transactions (tabs one_asset_db) = [aapl_buy]
   \<and> as_cost_basis aapl = 150 \<and> tx_transaction_type aapl_buy = ''BUY''
   \<and> tx_amount aapl_buy = 1500
   \<and> (10 :: rat) * 150 = of_int 1500 * power_int 10 0 \<and> \<bar>1500 :: int\<bar> < 10 ^ 28
   \<and> dec_round (10 * 150) = 10 * 150"
proof -
  have "(10 :: rat) * 150 = of_int 1500 * power_int 10 0 \<and> \<bar>1500 :: int\<bar> < 10 ^ 28"
    by simp
  with create_asset_and_transaction_rows [OF create_aapl]
  have "dec_round (10 * 150) = 10 * 150"
    by blast
  with create_aapl show ?thesis
    by (simp add: one_asset_db_def aapl_def aapl_buy_def)
qed

text \<open>
  Claim C10 (the parameter \<^verbatim>\<open>user_id\<close> is never read). Two calls that differ only in
  \<^verbatim>\<open>user_id\<close> return the same message and leave the same store.
\<close>

theorem create_asset_and_transaction_ignores_user_id:
  "create_asset_and_transaction sch user_id account_id ticker asset_class purchase_date
     shares cost_basis db
   = create_asset_and_transaction sch user_id' account_id ticker asset_class purchase_date
       shares cost_basis db"
  by (simp add: create_asset_and_transaction_def)

section \<open>update\_asset\<close>

text \<open>
  Claim C2 (with neither field supplied, \<^verbatim>\<open>update_asset\<close> must fail with an explicit
  error and must not execute a malformed statement). The code has no such check: it
  assembles a statement with an empty \<^verbatim>\<open>SET\<close> clause and executes it, and the message
  it returns is the server's syntax error.
\<close>

theorem update_asset_nothing_supplied_executes:
  "''UPDATE Assets SET '' @ join '', '' [] @ '' WHERE asset_id = %s''
     = ''UPDATE Assets SET  WHERE asset_id = %s''
   \<and> execute_update sch ''UPDATE Assets SET  WHERE asset_id = %s'' [PInt asset_id]
       (get_db_connection db) = (Inl SyntaxError, get_db_connection db)
   \<and> update_asset sch asset_id None None db
       = (''Error updating asset: syntax error at or near \"WHERE\"'', db)"
  by (simp add: update_asset_def execute_update_def parse_update_def conn_defs)

text \<open>
  Claim C8 (an update with one field supplied changes that field and nothing else).
  When the table accepts the changed rows, the update succeeds, every Asset row with
  the given identifier gets the new value in the field supplied and keeps all its other
  fields, and every other row of the store is as before.
\<close>

theorem update_asset_one_field:
  "((\<forall>a \<in> set (Assets (tabs db)).
       as_asset_id a = asset_id \<longrightarrow> assets_check sch (a\<lparr>as_shares := v\<rparr>))
    \<longrightarrow> update_asset sch asset_id (Some v) None db
         = (''Asset '' @ str_int asset_id @ '' updated successfully.'',
            db\<lparr>tabs := (tabs db)\<lparr>Assets :=
                 map (\<lambda>a. if as_asset_id a = asset_id then a\<lparr>as_shares := v\<rparr> else a)
                   (Assets (tabs db))\<rparr>\<rparr>))
   \<and> ((\<forall>a \<in> set (Assets (tabs db)).
         as_asset_id a = asset_id \<longrightarrow> assets_check sch (a\<lparr>as_cost_basis := v\<rparr>))
      \<longrightarrow> update_asset sch asset_id None (Some v) db
           = (''Asset '' @ str_int asset_id @ '' updated successfully.'',
              db\<lparr>tabs := (tabs db)\<lparr>Assets :=
                   map (\<lambda>a. if as_asset_id a = asset_id then a\<lparr>as_cost_basis := v\<rparr> else a)
                     (Assets (tabs db))\<rparr>\<rparr>))"
  by (auto simp add: update_asset_def execute_update_def parse_update_def conn_defs
      Decimal_def Let_def)

theorem update_asset_one_field_witness:
  "update_asset accept_all 1 (Some 20) None one_asset_db
     = (''Asset 1 updated successfully.'',
        one_asset_db\<lparr>tabs := (tabs one_asset_db)\<lparr>Assets := [aapl\<lparr>as_shares := 20\<rparr>]\<rparr>\<rparr>)
   \<and> as_cost_basis (aapl\<lparr>as_shares := 20\<rparr>) = 150
   \<and> update_asset accept_all 1 None (Some 175) one_asset_db
     = (''Asset 1 updated successfully.'',
        one_asset_db\<lparr>tabs := (tabs one_asset_db)\<lparr>Assets := [aapl\<lparr>as_cost_basis := 175\<rparr>]\<rparr>\<rparr>)
   \<and> as_shares (aapl\<lparr>as_cost_basis := 175\<rparr>) = 10"
  using update_asset_one_field [of one_asset_db 1 accept_all 20]
    update_asset_one_field [of one_asset_db 1 accept_all 175]
  by (simp add: accept_all_def one_asset_db_def aapl_def str_int_def str_digits.simps
      digit_char_def)

section \<open>delete\_asset\<close>

lemma delete_from_assets_absent:
  assumes "asset_id \<notin> set (map as_asset_id (Assets (pending conn)))"
  shows "delete_from_assets asset_id conn = (Inr 0, conn)"
proof -
  from assms have none: "filter (\<lambda>a. as_asset_id a = asset_id) (Assets (pending conn)) = []"
    by (auto simp: filter_empty_conv)
  from assms have
    rest: "filter (\<lambda>a. as_asset_id a \<noteq> asset_id) (Assets (pending conn)) = Assets (pending conn)"
    by (auto simp: filter_id_conv)
  show ?thesis
    unfolding delete_from_assets_def Let_def none rest by simp
qed

lemma delete_from_assets_present:
  assumes "asset_id \<in> set (map as_asset_id (Assets (pending conn)))"
  shows "snd (delete_from_assets asset_id conn)
    = conn\<lparr>pending := (pending conn)
        \<lparr>Assets := filter (\<lambda>a. as_asset_id a \<noteq> asset_id) (Assets (pending conn)),
         Transactions := filter (\<lambda>x. tx_asset_id x \<noteq> asset_id) (Transactions (pending conn))\<rparr>\<rparr>"
proof -
  from assms have
    "set (map as_asset_id (filter (\<lambda>a. as_asset_id a = asset_id) (Assets (pending conn))))
       = {asset_id}"
    by auto
  then show ?thesis
    unfolding delete_from_assets_def Let_def by simp
qed

text \<open>
  Claim C9 (deleting an identifier that is not in the store succeeds with zero rows
  affected; deleting an Asset removes its Transactions). For an identifier with no Asset
  row the statement deletes zero rows, the function returns its success message and the
  store is unchanged. For an identifier with an Asset row, the function returns the same
  message, and afterwards neither an Asset row with that identifier nor a Transaction
  row referring to it is left; all other rows are as before.
\<close>

theorem delete_asset_idempotent_cascade:
  "(asset_id \<notin> set (map as_asset_id (Assets (tabs db))) \<longrightarrow>
      fst (delete_from_assets asset_id (get_db_connection db)) = Inr 0
      \<and> delete_asset asset_id db
          = (''Asset '' @ str_int asset_id @ '' deleted successfully.'', db))
   \<and> (asset_id \<in> set (map as_asset_id (Assets (tabs db))) \<longrightarrow>
        delete_asset asset_id db
          = (''Asset '' @ str_int asset_id @ '' deleted successfully.'',
             db\<lparr>tabs := (tabs db)
                 \<lparr>Assets := filter (\<lambda>a. as_asset_id a \<noteq> asset_id) (Assets (tabs db)),
                  Transactions :=
                    filter (\<lambda>x. tx_asset_id x \<noteq> asset_id) (Transactions (tabs db))\<rparr>\<rparr>))"
proof (intro conjI impI)
  assume "asset_id \<notin> set (map as_asset_id (Assets (tabs db)))"
  then have "asset_id \<notin> set (map as_asset_id (Assets (pending (get_db_connection db))))"
    by (simp add: get_db_connection_def)
  then have gone: "delete_from_assets asset_id (get_db_connection db)
      = (Inr 0, get_db_connection db)"
    by (rule delete_from_assets_absent)
  then show "fst (delete_from_assets asset_id (get_db_connection db)) = Inr 0"
    by simp
  show "delete_asset asset_id db
      = (''Asset '' @ str_int asset_id @ '' deleted successfully.'', db)"
    unfolding delete_asset_def Let_def gone by (simp add: conn_defs)
next
  assume "asset_id \<in> set (map as_asset_id (Assets (tabs db)))"
  then have "asset_id \<in> set (map as_asset_id (Assets (pending (get_db_connection db))))"
    by (simp add: get_db_connection_def)
  from delete_from_assets_present [OF this]
  show "delete_asset asset_id db
      = (''Asset '' @ str_int asset_id @ '' deleted successfully.'',
         db\<lparr>tabs := (tabs db)
             \<lparr>Assets := filter (\<lambda>a. as_asset_id a \<noteq> asset_id) (Assets (tabs db)),
              Transactions :=
                filter (\<lambda>x. tx_asset_id x \<noteq> asset_id) (Transactions (tabs db))\<rparr>\<rparr>)"
    unfolding delete_asset_def Let_def
    by (cases "delete_from_assets asset_id (get_db_connection db)")
       (auto simp: delete_from_assets_def conn_defs Let_def split: sum.splits)
qed

theorem delete_asset_idempotent_cascade_witness:
  "7 \<notin> set (map as_asset_id (Assets (tabs one_asset_db)))
   \<and> delete_asset 7 one_asset_db = (''Asset 7 deleted successfully.'', one_asset_db)
   \<and> 1 \<in> set (map as_asset_id (Assets (tabs one_asset_db)))
   \<and> delete_asset 1 one_asset_db
       = (''Asset 1 deleted successfully.'',
          one_asset_db\<lparr>tabs := (tabs one_asset_db)\<lparr>Assets := [], Transactions := []\<rparr>\<rparr>)"
  using delete_asset_idempotent_cascade [of 7 one_asset_db]
    delete_asset_idempotent_cascade [of 1 one_asset_db]
  by (simp add: one_asset_db_def aapl_def aapl_buy_def str_int_def str_digits.simps
      digit_char_def)

section \<open>get\_insights and the page\<close>

lemma delta_returns: "\<exists>q. delta ins = Inr q"
  by (auto simp: delta_def dec_div_def split: sum.splits)

text \<open>
  Claim C7 (an account with no assets). \<^verbatim>\<open>get_insights\<close> returns total value 0, total
  gain/loss 0 and an empty allocation, and the percentage of the page is 0 for this
  result: the division is not evaluated, because the page divides only when the total
  value is positive. For the same reason the percentage never raises for any result.
\<close>

theorem get_insights_no_assets:
  assumes "filter (\<lambda>a. as_account_id a = sql_int account_id) (Assets (tabs db)) = []"
  shows "get_insights random account_id db
           = Inr \<lparr>total_value = 0, total_gain_loss = 0, asset_allocation = []\<rparr>
         \<and> delta \<lparr>total_value = 0, total_gain_loss = 0, asset_allocation = []\<rparr> = Inr 0
         \<and> (\<forall>ins. \<exists>q. delta ins = Inr q)"
  using assms delta_returns
  by (simp add: get_insights_def select_assets_def conn_defs Decimal_def dec_sub_def
      dec_round_0 delta_def)

theorem get_insights_no_assets_witness:
  "filter (\<lambda>a. as_account_id a = sql_int (Row1 1)) (Assets (tabs bootstrapped_db)) = []
   \<and> get_insights (\<lambda>i. 1 / 2) (Row1 1) bootstrapped_db
       = Inr \<lparr>total_value = 0, total_gain_loss = 0, asset_allocation = []\<rparr>
   \<and> delta \<lparr>total_value = 0, total_gain_loss = 0, asset_allocation = []\<rparr> = Inr 0"
proof -
  have none:
    "filter (\<lambda>a. as_account_id a = sql_int (Row1 1)) (Assets (tabs bootstrapped_db)) = []"
    by (simp add: bootstrapped_db_def)
  from get_insights_no_assets [OF none, of "\<lambda>i. 1 / 2"] none show ?thesis
    by simp
qed

section \<open>Accumulated rounding in get\_insights\<close>

lemma insights_loop_step:
  "insights_loop random i (asset # assets) (tv, tcb, alloc)
   = insights_loop random (Suc i) assets
       (dec_add tv (current_value asset (random i)),
        dec_add tcb (dec_mul (as_shares asset) (as_cost_basis asset)),
        (case map_of alloc (as_asset_class asset) of
           None \<Rightarrow> dict_set alloc (as_asset_class asset)
                     (dec_add 0 (current_value asset (random i)))
         | Some w \<Rightarrow> dict_set alloc (as_asset_class asset)
                      (dec_add w (current_value asset (random i)))))"
  by (simp add: current_value_def current_price_def price_factor_def Decimal_def Let_def
      split: option.split)

lemma dict_set_new:
  "map_of d k = None \<Longrightarrow>
     sum_list (map snd (dict_set d k v)) = sum_list (map snd d) + v
     \<and> sum_list (map (\<lambda>e. \<bar>snd e\<bar>) (dict_set d k v)) = sum_list (map (\<lambda>e. \<bar>snd e\<bar>) d) + \<bar>v\<bar>"
  by (induction d) (auto split: if_splits)

lemma dict_set_old:
  "map_of d k = Some w \<Longrightarrow>
     sum_list (map snd (dict_set d k v)) = sum_list (map snd d) - w + v
     \<and> sum_list (map (\<lambda>e. \<bar>snd e\<bar>) (dict_set d k v))
         = sum_list (map (\<lambda>e. \<bar>snd e\<bar>) d) - \<bar>w\<bar> + \<bar>v\<bar>"
  by (induction d) (auto split: if_splits)

lemma mass_nonneg: "0 \<le> sum_list (map (\<lambda>e. \<bar>snd e\<bar>) (d :: allocation))"
  by (induction d) auto

lemma entry_le_mass:
  "map_of d k = Some w \<Longrightarrow> \<bar>w\<bar> \<le> sum_list (map (\<lambda>e. \<bar>snd e\<bar>) (d :: allocation))"
proof (induction d)
  case (Cons e d)
  then show ?case
    using mass_nonneg [of d] by (cases e) (auto split: if_splits)
qed simp

lemma sum_step:
  fixes u c A S E M w r v :: rat
  assumes u: "0 \<le> u" and c: "1 \<le> c" and A: "0 \<le> A"
    and S: "\<bar>S - E\<bar> \<le> (c - 1) * A" and M: "M \<le> c * A" and w: "\<bar>w\<bar> \<le> M"
    and r: "\<bar>r - (w + v)\<bar> \<le> u * \<bar>w + v\<bar>"
  shows "\<bar>S - w + r - (E + v)\<bar> \<le> ((1 + u) * c - 1) * (A + \<bar>v\<bar>)"
    and "M - \<bar>w\<bar> + \<bar>r\<bar> \<le> (1 + u) * c * (A + \<bar>v\<bar>)"
proof -
  have wv: "\<bar>w + v\<bar> \<le> \<bar>w\<bar> + \<bar>v\<bar>" by simp
  have p1: "u * \<bar>w + v\<bar> \<le> u * \<bar>w\<bar> + u * \<bar>v\<bar>"
    using mult_left_mono [OF wv u] by (simp add: algebra_simps)
  have p2: "u * \<bar>w\<bar> \<le> u * M" using w u by (rule mult_left_mono)
  have p3: "u * M \<le> u * (c * A)" using M u by (rule mult_left_mono)
  have p4: "\<bar>v\<bar> \<le> c * \<bar>v\<bar>" using mult_right_mono [OF c, of "\<bar>v\<bar>"] by simp
  have p5: "u * \<bar>v\<bar> \<le> u * (c * \<bar>v\<bar>)" using p4 u by (rule mult_left_mono)
  have e: "\<bar>r - (w + v)\<bar> \<le> u * (c * A) + u * \<bar>v\<bar>" using r p1 p2 p3 by linarith
  have "\<bar>S - w + r - (E + v)\<bar> \<le> \<bar>S - E\<bar> + \<bar>r - (w + v)\<bar>" by linarith
  also have "\<dots> \<le> (c - 1) * A + (u * (c * A) + u * \<bar>v\<bar>)" using S e by linarith
  also have "\<dots> \<le> ((1 + u) * c - 1) * (A + \<bar>v\<bar>)"
    using p4 p5 by (simp add: algebra_simps)
  finally show "\<bar>S - w + r - (E + v)\<bar> \<le> ((1 + u) * c - 1) * (A + \<bar>v\<bar>)" .
  have "\<bar>r\<bar> \<le> \<bar>w + v\<bar> + \<bar>r - (w + v)\<bar>" by linarith
  then have "\<bar>r\<bar> \<le> \<bar>w\<bar> + \<bar>v\<bar> + (u * \<bar>w\<bar> + u * \<bar>v\<bar>)" using r p1 wv by linarith
  then have "M - \<bar>w\<bar> + \<bar>r\<bar> \<le> M + u * M + \<bar>v\<bar> + u * \<bar>v\<bar>" using p2 by linarith
  also have "\<dots> \<le> c * A + u * (c * A) + c * \<bar>v\<bar> + u * (c * \<bar>v\<bar>)"
    using M p3 p4 p5 by linarith
  also have "\<dots> = (1 + u) * c * (A + \<bar>v\<bar>)" by (simp add: algebra_simps)
  finally show "M - \<bar>w\<bar> + \<bar>r\<bar> \<le> (1 + u) * c * (A + \<bar>v\<bar>)" .
qed


lemma unit_roundoff_nonneg: "0 \<le> unit_roundoff"
  by (simp add: unit_roundoff_def)

lemma dec_add_error: "\<bar>dec_add w v - (w + v)\<bar> \<le> unit_roundoff * \<bar>w + v\<bar>"
  by (simp add: dec_add_def dec_round_error)

lemma insights_loop_bounds:
  fixes A E :: rat
  assumes "0 \<le> A"
    and "\<bar>tv - E\<bar> \<le> ((1 + unit_roundoff) ^ k - 1) * A"
    and "\<bar>tv\<bar> \<le> (1 + unit_roundoff) ^ k * A"
    and "\<bar>sum_list (map snd alloc) - E\<bar> \<le> ((1 + unit_roundoff) ^ k - 1) * A"
    and "sum_list (map (\<lambda>e. \<bar>snd e\<bar>) alloc) \<le> (1 + unit_roundoff) ^ k * A"
    and "insights_loop random i assets (tv, tcb, alloc) = (tv', tcb', alloc')"
  shows "\<bar>tv' - (E + sum_list (current_values random i assets))\<bar>
           \<le> ((1 + unit_roundoff) ^ (k + length assets) - 1)
              * (A + sum_list (map abs (current_values random i assets)))
       \<and> \<bar>sum_list (map snd alloc') - (E + sum_list (current_values random i assets))\<bar>
           \<le> ((1 + unit_roundoff) ^ (k + length assets) - 1)
              * (A + sum_list (map abs (current_values random i assets)))"
  using assms
proof (induction assets arbitrary: i tv tcb alloc k A E)
  case Nil
  then show ?case by simp
next
  case (Cons asset assets)
  define u where "u = unit_roundoff"
  define c where "c = (1 + u) ^ k"
  define v where "v = current_value asset (random i)"
  define cls where "cls = as_asset_class asset"
  define w where "w = (case map_of alloc cls of None \<Rightarrow> 0 | Some x \<Rightarrow> x)"
  define alloc1 where "alloc1 = dict_set alloc cls (dec_add w v)"
  define tv1 where "tv1 = dec_add tv v"
  define M where "M = sum_list (map (\<lambda>e. \<bar>snd e\<bar>) alloc)"
  define S where "S = sum_list (map snd alloc)"
  have u: "0 \<le> u" by (simp add: u_def unit_roundoff_nonneg)
  have c: "1 \<le> c" unfolding c_def using u by (intro one_le_power) simp
  have c1: "(1 + u) * c = (1 + u) ^ Suc k" by (simp add: c_def)
  have A: "0 \<le> A" by (rule Cons.prems(1))
  have A1: "0 \<le> A + \<bar>v\<bar>" using A by simp
  have tvE: "\<bar>tv - E\<bar> \<le> (c - 1) * A" and tvM: "\<bar>tv\<bar> \<le> c * A"
    and SE: "\<bar>S - E\<bar> \<le> (c - 1) * A" and MA: "M \<le> c * A"
    using Cons.prems(2-5) by (simp_all add: c_def u_def S_def M_def)
  have run: "insights_loop random (Suc i) assets
      (tv1, dec_add tcb (dec_mul (as_shares asset) (as_cost_basis asset)), alloc1)
      = (tv', tcb', alloc')"
    using Cons.prems(6) unfolding insights_loop_step
    by (simp add: tv1_def alloc1_def w_def v_def cls_def split: option.splits)
  have wM: "\<bar>w\<bar> \<le> M"
    unfolding w_def M_def using mass_nonneg [of alloc]
    by (auto split: option.splits dest: entry_le_mass)
  have sums: "sum_list (map snd alloc1) = S - w + dec_add w v"
    "sum_list (map (\<lambda>e. \<bar>snd e\<bar>) alloc1) = M - \<bar>w\<bar> + \<bar>dec_add w v\<bar>"
    unfolding alloc1_def w_def S_def M_def
    by (auto split: option.splits simp: dict_set_new dict_set_old)
  have r: "\<bar>dec_add w v - (w + v)\<bar> \<le> u * \<bar>w + v\<bar>" "\<bar>tv1 - (tv + v)\<bar> \<le> u * \<bar>tv + v\<bar>"
    by (simp_all add: u_def tv1_def dec_add_error)
  from sum_step [OF u c A SE MA wM r(1)]
  have a1: "\<bar>sum_list (map snd alloc1) - (E + v)\<bar> \<le> ((1 + u) ^ Suc k - 1) * (A + \<bar>v\<bar>)"
    and a2: "sum_list (map (\<lambda>e. \<bar>snd e\<bar>) alloc1) \<le> (1 + u) ^ Suc k * (A + \<bar>v\<bar>)"
    by (simp_all only: sums c1)
  from sum_step [OF u c A tvE tvM order_refl r(2)]
  have t1: "\<bar>tv1 - (E + v)\<bar> \<le> ((1 + u) ^ Suc k - 1) * (A + \<bar>v\<bar>)"
    and t2: "\<bar>tv1\<bar> \<le> (1 + u) ^ Suc k * (A + \<bar>v\<bar>)"
    by (simp_all add: c1 del: power_Suc)
  from Cons.IH [OF A1 t1 [unfolded u_def] t2 [unfolded u_def] a1 [unfolded u_def]
      a2 [unfolded u_def] run]
  show ?case
    by (simp add: v_def algebra_simps)
qed

lemma insights_loop_total:
  assumes "insights_loop random 0 assets (0, 0, []) = (tv, tcb, alloc)"
  shows "\<bar>tv - sum_list (map snd alloc)\<bar>
    \<le> 2 * ((1 + unit_roundoff) ^ length assets - 1)
        * sum_list (map abs (current_values random 0 assets))"
proof -
  from insights_loop_bounds [of 0 0 0 0 "[]", OF _ _ _ _ _ assms]
  have "\<bar>tv - sum_list (current_values random 0 assets)\<bar>
           \<le> ((1 + unit_roundoff) ^ length assets - 1)
              * sum_list (map abs (current_values random 0 assets))"
    "\<bar>sum_list (map snd alloc) - sum_list (current_values random 0 assets)\<bar>
           \<le> ((1 + unit_roundoff) ^ length assets - 1)
              * sum_list (map abs (current_values random 0 assets))"
    by simp_all
  then show ?thesis by linarith
qed

section \<open>The simulated price\<close>

text \<open>The draw 0.25 and the largest draw, step by step.\<close>

lemma is_random_quarter: "is_random (1 / 4)"
  by (simp add: is_random_def)

lemma is_random_largest: "is_random largest_random"
  by (simp add: is_random_def largest_random_def)

lemma quarter_minus_half: "fl_sub (1 / 4) lit_0_5 = - (1 / 4)"
  using round_sig_eval_neg [where b = 2 and p = 53 and x = "- (1 / 4)"
      and e = "- 2" and m = 4503599627370496]
  by (simp add: fl_sub_def fl_round_def lit_0_5_eq)

lemma quarter_times_fifth: "fl_mul (- (1 / 4)) lit_0_2 = - (3602879701896397 / 72057594037927936)"
  using round_sig_eval_neg [where b = 2 and p = 53 and x = "- (3602879701896397 / 72057594037927936)"
      and e = "- 5" and m = 7205759403792794]
  by (simp add: fl_mul_def fl_round_def lit_0_2_eq)

lemma quarter_factor:
  "fl_add 1 (- (3602879701896397 / 72057594037927936))
     = 4278419646001971 / 4503599627370496"
  using round_sig_eval [where b = 2 and p = 53 and x = "68454714336031539 / 72057594037927936"
      and e = "- 1" and m = 8556839292003942]
  by (simp add: fl_add_def fl_round_def)

lemma aapl_price:
  "dec_mul 150 (4278419646001971 / 4503599627370496)
     = 712499999999999966693309261 / 5000000000000000000000000"
  using round_sig_eval [where b = 10 and p = 28 and x = "320881473450147825 / 2251799813685248"
      and e = 2 and m = 1424999999999999933386618522]
  by (simp add: dec_mul_def dec_round_def prec_def)

lemma aapl_value:
  "dec_mul 10 (712499999999999966693309261 / 5000000000000000000000000)
     = 712499999999999966693309261 / 500000000000000000000000"
  using round_sig_eval [where b = 10 and p = 28 and x = "712499999999999966693309261 / 500000000000000000000000"
      and e = 3 and m = 1424999999999999933386618522]
  by (simp add: dec_mul_def dec_round_def prec_def)

lemma aapl_cost: "dec_mul 10 150 = 1500"
  using round_sig_eval [where b = 10 and p = 28 and x = "1500"
      and e = 3 and m = 1500000000000000000000000000]
  by (simp add: dec_mul_def dec_round_def prec_def)

lemma aapl_gain:
  "dec_sub (712499999999999966693309261 / 500000000000000000000000) 1500
     = - (37500000000000033306690739 / 500000000000000000000000)"
  using round_sig_eval_neg [where b = 10 and p = 28 and x = "- (37500000000000033306690739 / 500000000000000000000000)"
      and e = 1 and m = 7500000000000006661338147800]
  by (simp add: dec_sub_def dec_round_def prec_def)

lemma quarter_price_factor: "price_factor (1 / 4) = 4278419646001971 / 4503599627370496"
  by (simp add: price_factor_def quarter_minus_half quarter_times_fifth quarter_factor)

lemma largest_minus_half:
  "fl_sub (9007199254740991 / 9007199254740992) lit_0_5
     = 4503599627370495 / 9007199254740992"
  using round_sig_eval [where b = 2 and p = 53 and x = "4503599627370495 / 9007199254740992"
      and e = "- 2" and m = 9007199254740990]
  by (simp add: fl_sub_def fl_round_def lit_0_5_eq)

lemma largest_times_fifth:
  "fl_mul (4503599627370495 / 9007199254740992) lit_0_2
     = 900719925474099 / 9007199254740992"
  using round_sig_eval [where b = 2 and p = 53 and x = "16225927682921333636998024606515 / 162259276829213363391578010288128"
      and e = "- 4" and m = 7205759403792792]
  by (simp add: fl_mul_def fl_round_def lit_0_2_eq)

lemma largest_factor:
  "fl_add 1 (900719925474099 / 9007199254740992)
     = 2476979795053773 / 2251799813685248"
  using round_sig_eval_tie [where b = 2 and p = 53 and x = "9907919180215091 / 9007199254740992"
      and e = 0 and n = 4953959590107545]
  by (simp add: fl_add_def fl_round_def)

lemma one_share_price:
  "dec_mul 100 (2476979795053773 / 2251799813685248)
     = 110000000000000008881784197 / 1000000000000000000000000"
  using round_sig_eval [where b = 10 and p = 28 and x = "61924494876344325 / 562949953421312"
      and e = 2 and m = 1100000000000000088817841970]
  by (simp add: dec_mul_def dec_round_def prec_def)

lemma one_share_value:
  "dec_mul 1 (110000000000000008881784197 / 1000000000000000000000000)
     = 110000000000000008881784197 / 1000000000000000000000000"
  using round_sig_eval [where b = 10 and p = 28 and x = "110000000000000008881784197 / 1000000000000000000000000"
      and e = 2 and m = 1100000000000000088817841970]
  by (simp add: dec_mul_def dec_round_def prec_def)

lemma one_share_cost: "dec_mul 1 100 = 100"
  using round_sig_eval [where b = 10 and p = 28 and x = "100"
      and e = 2 and m = 1000000000000000000000000000]
  by (simp add: dec_mul_def dec_round_def prec_def)

lemma one_share_total:
  "dec_add 0 (110000000000000008881784197 / 1000000000000000000000000)
     = 110000000000000008881784197 / 1000000000000000000000000"
  using round_sig_eval [where b = 10 and p = 28 and x = "110000000000000008881784197 / 1000000000000000000000000"
      and e = 2 and m = 1100000000000000088817841970]
  by (simp add: dec_add_def dec_round_def prec_def)

lemma one_share_total_cost: "dec_add 0 100 = 100"
  using round_sig_eval [where b = 10 and p = 28 and x = "100"
      and e = 2 and m = 1000000000000000000000000000]
  by (simp add: dec_add_def dec_round_def prec_def)

lemma one_share_gain:
  "dec_sub (110000000000000008881784197 / 1000000000000000000000000) 100
     = 10000000000000008881784197 / 1000000000000000000000000"
  using round_sig_eval [where b = 10 and p = 28 and x = "10000000000000008881784197 / 1000000000000000000000000"
      and e = 1 and m = 1000000000000000888178419700]
  by (simp add: dec_sub_def dec_round_def prec_def)

lemmas one_share_evals = largest_minus_half largest_times_fifth largest_factor one_share_price
  one_share_value one_share_cost one_share_total one_share_total_cost one_share_gain

lemma fmt_cost: "fmt_2f 150 = ''150.00''"
  using rhe_near [where q = 15000 and m = 15000]
  by (simp add: fmt_2f_def str_digits.simps digit_char_def Let_def)

lemma fmt_price: "fmt_2f (712499999999999966693309261 / 5000000000000000000000000) = ''142.50''"
  using rhe_near [where q = "712499999999999966693309261 / 50000000000000000000000" and m = 14250]
  by (simp add: fmt_2f_def str_digits.simps digit_char_def Let_def)

lemma fmt_value: "fmt_2f (712499999999999966693309261 / 500000000000000000000000) = ''1425.00''"
  using rhe_near [where q = "712499999999999966693309261 / 5000000000000000000000" and m = 142500]
  by (simp add: fmt_2f_def str_digits.simps digit_char_def Let_def)

lemma fmt_gain: "fmt_2f (- (37500000000000033306690739 / 500000000000000000000000)) = ''-75.00''"
  using rhe_near [where q = "37500000000000033306690739 / 5000000000000000000000" and m = 7500]
  by (simp add: fmt_2f_def str_digits.simps digit_char_def Let_def)

text \<open>Both loops in terms of the quantities of the claims.\<close>

lemma holding_of_ops:
  "holding_of asset r =
     \<lparr>h_asset_id = as_asset_id asset, Ticker = as_ticker_symbol asset,
      Asset_Class = as_asset_class asset, Shares = as_shares asset,
      Cost_Basis = fmt_2f (as_cost_basis asset), Purchase_Date = as_purchase_date asset,
      Current_Price = fmt_2f (current_price (as_cost_basis asset) r),
      Current_Value = fmt_2f (current_value asset r),
      Gain_Loss = fmt_2f (dec_sub (current_value asset r)
                    (dec_mul (as_shares asset) (as_cost_basis asset)))\<rparr>"
  by (simp add: holding_of_def current_value_def current_price_def dec_mul_def dec_sub_def
      Decimal_def)

lemma portfolio_loop_holdings:
  "portfolio_loop random i assets portfolio = portfolio @ holdings random i assets"
  by (induction assets arbitrary: i portfolio)
     (simp_all add: holding_of_def price_factor_def dec_mul_def dec_sub_def Decimal_def Let_def)

lemma insights_loop_total_value:
  "fst (insights_loop random i assets (tv, tcb, alloc))
     = foldl dec_add tv (current_values random i assets)"
  by (induction assets arbitrary: i tv tcb alloc)
     (simp_all add: insights_loop_step del: insights_loop.simps(2))

text \<open>
  Claim C5 (both functions compute the price as \<open>c \<times> (1 + U(-0.5, 0.5) \<times> 0.2)\<close>, so that
  for every draw the price lies within 10\% of \<open>c\<close>; the value is shares \<times> price and
  the gain is value - shares \<times> cost\_basis). As stated the claim fails at the upper
  end: the factor is computed in binary floating point, and for the largest draw,
  \<open>1 - 2\<^sup>-\<^sup>5\<^sup>3\<close>, it is the double nearest to 1.1, which is above 1.1. For one share
  bought at 100.00, \<^verbatim>\<open>get_insights\<close> then reports a value of
  110.0000000000000088817841970, more than 100.00 plus 10\%.
\<close>

theorem simulated_price_above_ten_percent:
  "is_random largest_random
   \<and> get_insights (\<lambda>i. largest_random) (Row1 1) one_share_db
     = Inr \<lparr>total_value = 1100000000000000088817841970 / 10 ^ 25,
            total_gain_loss = 100000000000000088817841970 / 10 ^ 25,
            asset_allocation = [(''Equity'', 1100000000000000088817841970 / 10 ^ 25)]\<rparr>
   \<and> current_price 100 largest_random = 1100000000000000088817841970 / 10 ^ 25
   \<and> 100 + 10 / 100 * 100 < current_price 100 largest_random"
proof -
  have run: "get_insights (\<lambda>i. largest_random) (Row1 1) one_share_db
     = Inr \<lparr>total_value = 1100000000000000088817841970 / 10 ^ 25,
            total_gain_loss = 100000000000000088817841970 / 10 ^ 25,
            asset_allocation = [(''Equity'', 1100000000000000088817841970 / 10 ^ 25)]\<rparr>"
    by (simp add: get_insights_def select_assets_def get_db_connection_def
        one_share_db_def one_share_def bootstrapped_db_def Decimal_def largest_random_def
        one_share_evals Let_def)
  have price: "current_price 100 largest_random = 1100000000000000088817841970 / 10 ^ 25"
    by (simp add: current_price_def price_factor_def Decimal_def largest_random_def
        one_share_evals)
  from is_random_largest run price show ?thesis
    by simp
qed

text \<open>
  Claim C5, amended. For the draws \<open>random 0\<close>, \<open>random 1\<close>, ... of one call:
  \<^verbatim>\<open>read_portfolio\<close> returns, for the \<open>j\<close>-th asset of the account, the entry
  \<open>holding_of\<close> of that asset and \<open>random j\<close>, whose price is \<open>c \<times> f\<close> rounded to 28
  significant digits, \<open>f\<close> being the double \<open>1 + (r - 0.5) \<times> 0.2\<close>, whose value is
  shares \<times> price and whose gain is value - shares \<times> cost\_basis, each rounded to 28
  digits (and then printed with two places); \<^verbatim>\<open>get_insights\<close> adds up the same values.
  For every draw the factor lies between the doubles nearest to 0.9 and to 1.1, and for
  \<open>c \<ge> 0\<close> the price lies between \<open>0.9 \<times> c\<close> and \<open>1.1000000000000001 \<times> c\<close>.
\<close>

theorem simulated_price_formula_and_range:
  assumes "\<forall>j. is_random (random j)"
  shows "read_portfolio random account_id db
           = Inr (holdings random 0
                   (filter (\<lambda>a. as_account_id a = sql_int account_id) (Assets (tabs db))))
       \<and> (\<exists>ins. get_insights random account_id db = Inr ins
            \<and> total_value ins
                = foldl dec_add 0 (current_values random 0
                    (filter (\<lambda>a. as_account_id a = sql_int account_id) (Assets (tabs db)))))
       \<and> (\<forall>j c. 0 \<le> c \<longrightarrow>
             current_price c (random j) = dec_round (c * price_factor (random j))
             \<and> float_0_9 \<le> price_factor (random j) \<and> price_factor (random j) \<le> float_1_1
             \<and> 9 / 10 * c \<le> current_price c (random j)
             \<and> current_price c (random j) \<le> 11000000000000001 / 10 ^ 16 * c)"
proof (intro conjI allI impI)
  show "read_portfolio random account_id db
           = Inr (holdings random 0
                   (filter (\<lambda>a. as_account_id a = sql_int account_id) (Assets (tabs db))))"
    by (simp add: read_portfolio_def select_assets_def get_db_connection_def
        portfolio_loop_holdings)
  show "\<exists>ins. get_insights random account_id db = Inr ins
            \<and> total_value ins
                = foldl dec_add 0 (current_values random 0
                    (filter (\<lambda>a. as_account_id a = sql_int account_id) (Assets (tabs db))))"
    using insights_loop_total_value [of random 0
        "filter (\<lambda>a. as_account_id a = sql_int account_id) (Assets (tabs db))" 0 0 "[]"]
    by (auto simp: get_insights_def select_assets_def get_db_connection_def Decimal_def
        split: prod.splits)
next
  fix j c
  assume c: "(0::rat) \<le> c"
  from assms have r: "0 \<le> random j" "random j \<le> 1"
    by (auto simp: is_random_def order.strict_implies_order)
  show "current_price c (random j) = dec_round (c * price_factor (random j))"
    by (simp add: current_price_def dec_mul_def Decimal_def)
  show "float_0_9 \<le> price_factor (random j)" "price_factor (random j) \<le> float_1_1"
    using price_factor_bounds [OF r] by simp_all
  show "9 / 10 * c \<le> current_price c (random j)"
    "current_price c (random j) \<le> 11000000000000001 / 10 ^ 16 * c"
    using current_price_bounds [OF r c] by simp_all
qed

theorem simulated_price_formula_and_range_witness:
  "is_random (1 / 4)
   \<and> read_portfolio (\<lambda>i. 1 / 4) (Row1 1) one_asset_db
       = Inr [\<lparr>h_asset_id = 1, Ticker = ''AAPL'', Asset_Class = ''Equity'', Shares = 10,
               Cost_Basis = ''150.00'', Purchase_Date = (2024, 1, 1),
               Current_Price = ''142.50'', Current_Value = ''1425.00'',
               Gain_Loss = ''-75.00''\<rparr>]
   \<and> current_price 150 (1 / 4) = 1424999999999999933386618522 / 10 ^ 25
   \<and> 9 / 10 * 150 \<le> current_price 150 (1 / 4)
   \<and> current_price 150 (1 / 4) \<le> 11000000000000001 / 10 ^ 16 * 150"
proof -
  have all: "\<forall>j. is_random ((\<lambda>i. 1 / 4) j)"
    by (simp add: is_random_quarter)
  have rows: "filter (\<lambda>a. as_account_id a = sql_int (Row1 1)) (Assets (tabs one_asset_db))
      = [aapl]"
    by (simp add: one_asset_db_def aapl_def)
  have price: "current_price 150 (1 / 4) = 1424999999999999933386618522 / 10 ^ 25"
    by (simp add: current_price_def Decimal_def quarter_price_factor aapl_price)
  have entry: "holdings (\<lambda>i. 1 / 4) 0 [aapl]
      = [\<lparr>h_asset_id = 1, Ticker = ''AAPL'', Asset_Class = ''Equity'', Shares = 10,
               Cost_Basis = ''150.00'', Purchase_Date = (2024, 1, 1),
               Current_Price = ''142.50'', Current_Value = ''1425.00'',
               Gain_Loss = ''-75.00''\<rparr>]"
    by (simp add: holding_of_ops aapl_def current_value_def current_price_def Decimal_def
        quarter_price_factor aapl_price aapl_value aapl_cost aapl_gain
        fmt_cost fmt_price fmt_value fmt_gain)
  note inst = simulated_price_formula_and_range [OF all, of "Row1 1" one_asset_db,
      unfolded rows]
  from inst have listing:
    "read_portfolio (\<lambda>i. 1 / 4) (Row1 1) one_asset_db = Inr (holdings (\<lambda>i. 1 / 4) 0 [aapl])"
    by (rule conjunct1)
  from inst have "(0::rat) \<le> 150 \<longrightarrow>
      current_price 150 (1 / 4) = dec_round (150 * price_factor (1 / 4))
      \<and> float_0_9 \<le> price_factor (1 / 4) \<and> price_factor (1 / 4) \<le> float_1_1
      \<and> 9 / 10 * 150 \<le> current_price 150 (1 / 4)
      \<and> current_price 150 (1 / 4) \<le> 11000000000000001 / 10 ^ 16 * 150"
    by blast
  then have range: "9 / 10 * 150 \<le> current_price 150 (1 / 4)"
    "current_price 150 (1 / 4) \<le> 11000000000000001 / 10 ^ 16 * 150"
    by simp_all
  from is_random_quarter listing entry price range show ?thesis
    by (simp only: simp_thms)
qed

section \<open>Total value and allocation\<close>

lemma ltc_price:
  "dec_mul (9999 / 100) (4278419646001971 / 4503599627370496)
     = 9499049999999999555955199071 / 100000000000000000000000000"
  using round_sig_eval [where b = 10 and p = 28 and x = "42779918040373708029 / 450359962737049600"
      and e = 1 and m = 9499049999999999555955199071]
  by (simp add: dec_mul_def dec_round_def prec_def)

lemma ltc_value:
  "dec_mul 1 (9499049999999999555955199071 / 100000000000000000000000000)
     = 9499049999999999555955199071 / 100000000000000000000000000"
  using round_sig_eval [where b = 10 and p = 28 and x = "9499049999999999555955199071 / 100000000000000000000000000"
      and e = 1 and m = 9499049999999999555955199071]
  by (simp add: dec_mul_def dec_round_def prec_def)

lemma ltc_cost: "dec_mul 1 (9999 / 100) = 9999 / 100"
  using round_sig_eval [where b = 10 and p = 28 and x = "9999 / 100"
      and e = 1 and m = 9999000000000000000000000000]
  by (simp add: dec_mul_def dec_round_def prec_def)

lemma ford_price:
  "dec_mul (617 / 50) (4278419646001971 / 4503599627370496)
     = 234459999999999989039878301 / 20000000000000000000000000"
  using round_sig_eval [where b = 10 and p = 28 and x = "2639784921583216107 / 225179981368524800"
      and e = 1 and m = 1172299999999999945199391505]
  by (simp add: dec_mul_def dec_round_def prec_def)

lemma ford_value:
  "dec_mul 10 (234459999999999989039878301 / 20000000000000000000000000)
     = 234459999999999989039878301 / 2000000000000000000000000"
  using round_sig_eval [where b = 10 and p = 28 and x = "234459999999999989039878301 / 2000000000000000000000000"
      and e = 2 and m = 1172299999999999945199391505]
  by (simp add: dec_mul_def dec_round_def prec_def)

lemma ford_cost: "dec_mul 10 (617 / 50) = 617 / 5"
  using round_sig_eval [where b = 10 and p = 28 and x = "617 / 5"
      and e = 2 and m = 1234000000000000000000000000]
  by (simp add: dec_mul_def dec_round_def prec_def)

lemma total_value_1:
  "dec_add 0 (712499999999999966693309261 / 500000000000000000000000)
     = 712499999999999966693309261 / 500000000000000000000000"
  using round_sig_eval [where b = 10 and p = 28 and x = "712499999999999966693309261 / 500000000000000000000000"
      and e = 3 and m = 1424999999999999933386618522]
  by (simp add: dec_add_def dec_round_def prec_def)

lemma total_cost_1: "dec_add 0 1500 = 1500"
  using round_sig_eval [where b = 10 and p = 28 and x = "1500"
      and e = 3 and m = 1500000000000000000000000000]
  by (simp add: dec_add_def dec_round_def prec_def)

lemma total_value_2:
  "dec_add (712499999999999966693309261 / 500000000000000000000000) (9499049999999999555955199071 / 100000000000000000000000000)
     = 1519990499999999928946170513 / 1000000000000000000000000"
  using round_sig_eval [where b = 10 and p = 28 and x = "151999049999999992894617051271 / 100000000000000000000000000"
      and e = 3 and m = 1519990499999999928946170513]
  by (simp add: dec_add_def dec_round_def prec_def)

lemma total_cost_2: "dec_add 1500 (9999 / 100) = 159999 / 100"
  using round_sig_eval [where b = 10 and p = 28 and x = "159999 / 100"
      and e = 3 and m = 1599990000000000000000000000]
  by (simp add: dec_add_def dec_round_def prec_def)

lemma total_value_3:
  "dec_add (1519990499999999928946170513 / 1000000000000000000000000) (234459999999999989039878301 / 2000000000000000000000000)
     = 51163140624999997608315927 / 31250000000000000000000"
  using round_sig_eval_tie [where b = 10 and p = 28 and x = "3274440999999999846932219327 / 2000000000000000000000000"
      and e = 3 and n = 1637220499999999923466109663]
  by (simp add: dec_add_def dec_round_def prec_def)

lemma total_cost_3: "dec_add (159999 / 100) (617 / 5) = 172339 / 100"
  using round_sig_eval [where b = 10 and p = 28 and x = "172339 / 100"
      and e = 3 and m = 1723390000000000000000000000]
  by (simp add: dec_add_def dec_round_def prec_def)

lemma equity_2:
  "dec_add (712499999999999966693309261 / 500000000000000000000000) (234459999999999989039878301 / 2000000000000000000000000)
     = 192778749999999990988319709 / 125000000000000000000000"
  using round_sig_eval_tie [where b = 10 and p = 28 and x = "616891999999999971162623069 / 400000000000000000000000"
      and e = 3 and n = 1542229999999999927906557672]
  by (simp add: dec_add_def dec_round_def prec_def)

lemma crypto_1:
  "dec_add 0 (9499049999999999555955199071 / 100000000000000000000000000)
     = 9499049999999999555955199071 / 100000000000000000000000000"
  using round_sig_eval [where b = 10 and p = 28 and x = "9499049999999999555955199071 / 100000000000000000000000000"
      and e = 1 and m = 9499049999999999555955199071]
  by (simp add: dec_add_def dec_round_def prec_def)

lemma gain_loss:
  "dec_sub (51163140624999997608315927 / 31250000000000000000000) (172339 / 100)
     = - (2692796875000002391684073 / 31250000000000000000000)"
  using round_sig_eval_neg [where b = 10 and p = 28 and x = "- (2692796875000002391684073 / 31250000000000000000000)"
      and e = 1 and m = 8616950000000007653389033600]
  by (simp add: dec_sub_def dec_round_def prec_def)

lemma py_sum_1:
  "dec_add 0 (192778749999999990988319709 / 125000000000000000000000)
     = 192778749999999990988319709 / 125000000000000000000000"
  using round_sig_eval [where b = 10 and p = 28 and x = "192778749999999990988319709 / 125000000000000000000000"
      and e = 3 and m = 1542229999999999927906557672]
  by (simp add: dec_add_def dec_round_def prec_def)

lemma py_sum_2:
  "dec_add (192778749999999990988319709 / 125000000000000000000000) (9499049999999999555955199071 / 100000000000000000000000000)
     = 1637220499999999923466109663 / 1000000000000000000000000"
  using round_sig_eval [where b = 10 and p = 28 and x = "163722049999999992346610966271 / 100000000000000000000000000"
      and e = 3 and m = 1637220499999999923466109663]
  by (simp add: dec_add_def dec_round_def prec_def)

lemmas mixed_evals = quarter_minus_half quarter_times_fifth quarter_factor aapl_price aapl_value
  aapl_cost ltc_price ltc_value ltc_cost ford_price ford_value ford_cost total_value_1
  total_cost_1 total_value_2 total_cost_2 total_value_3 total_cost_3 equity_2 crypto_1 gain_loss

lemma mixed_insights: "get_insights (\<lambda>i. 1 / 4) (Row1 1) mixed_db = Inr mixed_result"
  by (simp add: get_insights_def select_assets_def get_db_connection_def mixed_db_def
      mixed_assets_def aapl_def ltc_def ford_def bootstrapped_db_def Decimal_def mixed_evals
      mixed_result_def)

text \<open>
  Claim C6 (for a non-empty portfolio, the total value returned by \<^verbatim>\<open>get_insights\<close> equals
  the sum of the per-class values of the allocation). As stated the claim fails: every
  addition rounds to 28 significant digits, and the total and the per-class sums add the
  same values in different orders. With three holdings, the second in another class
  than the first and the third, and every draw 0.25, the total value is
  1637.220499999999923466109664 while the two per-class values add up to
  1637.22049999999992346610966271, and to 1637.220499999999923466109663 when Python adds
  them.
\<close>

theorem total_value_differs_from_allocation_sum:
  "get_insights (\<lambda>i. 1 / 4) (Row1 1) mixed_db = Inr mixed_result
   \<and> total_value mixed_result \<noteq> sum_list (map snd (asset_allocation mixed_result))
   \<and> total_value mixed_result - sum_list (map snd (asset_allocation mixed_result))
       = 129 / 10 ^ 26
   \<and> total_value mixed_result \<noteq> py_sum (map snd (asset_allocation mixed_result))
   \<and> total_value mixed_result - py_sum (map snd (asset_allocation mixed_result)) = 1 / 10 ^ 24"
  using mixed_insights by (simp add: mixed_result_def py_sum_def py_sum_1 py_sum_2)

text \<open>
  Claim C6, amended. The total value and the sum of the per-class values agree up to
  the rounding of the additions: for \<open>n\<close> assets with current values \<open>v\<^sub>1, ..., v\<^sub>n\<close> they
  differ by at most \<open>2 \<times> ((1 + u)\<^sup>n - 1) \<times> (\<bar>v\<^sub>1\<bar> + ... + \<bar>v\<^sub>n\<bar>)\<close>, where
  \<open>u = 5 \<times> 10\<^sup>-\<^sup>2\<^sup>8\<close> is the largest relative error of one rounding.
\<close>

theorem total_value_near_allocation_sum:
  assumes "get_insights random account_id db = Inr ins"
  shows "\<bar>total_value ins - sum_list (map snd (asset_allocation ins))\<bar>
    \<le> 2 * ((1 + unit_roundoff)
              ^ length (filter (\<lambda>a. as_account_id a = sql_int account_id) (Assets (tabs db)))
            - 1)
        * sum_list (map abs (current_values random 0
            (filter (\<lambda>a. as_account_id a = sql_int account_id) (Assets (tabs db)))))"
proof -
  define rows where
    "rows = filter (\<lambda>a. as_account_id a = sql_int account_id) (Assets (tabs db))"
  obtain tv tcb alloc where loop: "insights_loop random 0 rows (0, 0, []) = (tv, tcb, alloc)"
    by (cases "insights_loop random 0 rows (0, 0, [])")
  with assms have "total_value ins = tv" "asset_allocation ins = alloc"
    by (auto simp: get_insights_def select_assets_def get_db_connection_def Decimal_def
        rows_def)
  with insights_loop_total [OF loop] show ?thesis
    by (simp add: rows_def)
qed

theorem total_value_near_allocation_sum_witness:
  "get_insights (\<lambda>i. 1 / 4) (Row1 1) mixed_db = Inr mixed_result
   \<and> \<bar>total_value mixed_result - sum_list (map snd (asset_allocation mixed_result))\<bar>
      \<le> 2 * ((1 + unit_roundoff)
                ^ length (filter (\<lambda>a. as_account_id a = sql_int (Row1 1))
                           (Assets (tabs mixed_db)))
              - 1)
           * sum_list (map abs (current_values (\<lambda>i. 1 / 4) 0
               (filter (\<lambda>a. as_account_id a = sql_int (Row1 1)) (Assets (tabs mixed_db)))))"
  using total_value_near_allocation_sum [OF mixed_insights] mixed_insights
  by (rule conjI [rotated])

end
